theory Spec2Isabelle
  imports Complex_Main "HOL-Library.AList" "HOL-Library.Log_Nat" "HOL-Library.Multiset"
begin

section \<open>The REDD data-store adapter (nilmtk/reddstore.py)\<close>

text \<open>
  A shallow embedding of \<^verbatim>\<open>nilmtk/reddstore.py\<close>: the static label table, \<^verbatim>\<open>load_labels\<close>
  and the methods of \<^verbatim>\<open>REDDStore\<close>. Exceptions are values of type \<open>error\<close>; a method
  returns \<open>error + result\<close>. The file system is an argument of every operation that
  reads it. The appliance dictionaries, which are the only objects written after their
  creation (line 236), live in an explicit store of objects and are referred to by
  address, so that aliasing between the static table and the returned metadata is
  visible.
\<close>

subsection \<open>Exceptions\<close>

datatype dict_key = IntKey int | StrKey string

text \<open>
  \<open>FormatError\<close> stands for \<^verbatim>\<open>'{:d}'.format(None)\<close>, which raises in every Python
  version (a ValueError in Python 2, a TypeError in Python 3). \<open>IOError\<close> carries the
  file name that could not be read.
\<close>

datatype error =
    ValueError string
  | KeyError dict_key
  | AssertionError
  | IOError string
  | IndexError
  | FormatError

subsection \<open>String formatting and paths\<close>

definition digit :: "nat \<Rightarrow> char" where
  "digit d = ''0123456789'' ! d"

function str_nat :: "nat \<Rightarrow> string" where
  "str_nat n = (if n < 10 then [digit n] else str_nat (n div 10) @ [digit (n mod 10)])"
  by pat_completeness auto
termination
  by (relation "measure id") auto

declare str_nat.simps [simp del]

text \<open>\<^verbatim>\<open>'{:d}'.format(i)\<close> and \<^verbatim>\<open>'{}'.format(i)\<close> for an integer \<open>i\<close>: its decimal numeral.\<close>

definition format_d :: "int \<Rightarrow> string" where
  "format_d i = (if i < 0 then CHR ''-'' # str_nat (nat (- i)) else str_nat (nat i))"

text \<open>\<^verbatim>\<open>os.path.join(a, b)\<close> of posixpath, for two components.\<close>

definition os_path_join :: "string \<Rightarrow> string \<Rightarrow> string" where
  "os_path_join a b =
     (if b \<noteq> [] \<and> hd b = CHR ''/'' then b
      else if a = [] \<or> last a = CHR ''/'' then a @ b
      else a @ ''/'' @ b)"

subsection \<open>The file system\<close>

text \<open>
  What the adapter observes of the disk: which paths are directories, and what the two
  readers return on a file name. \<open>readlines\<close> gives the lines of a label file, each
  already split as \<^verbatim>\<open>load_labels\<close> splits it, that is as the pair
  \<^verbatim>\<open>(int(line[0]), line[1].strip())\<close>; \<open>read_csv\<close> gives the rows of a channel file as
  \<^verbatim>\<open>pd.read_csv\<close> parses them, the index (a unix timestamp) and the float32 reading.
  \<open>None\<close> is a file that cannot be opened.
\<close>

record filesystem =
  isdir :: "string \<Rightarrow> bool"
  readlines :: "string \<Rightarrow> (int \<times> string) list option"
  read_csv :: "string \<Rightarrow> (int \<times> real) list option"

subsection \<open>Keys\<close>

text \<open>
  Modelled from the spec: the class \<^verbatim>\<open>Key\<close> of \<^verbatim>\<open>nilmtk/datastore.py\<close>, which is not part
  of the sources at hand. The spec describes a key as identifying a location by
  building number, optional meter number and optional utility type; \<open>key_obj\<close> is the
  object \<^verbatim>\<open>Key(key)\<close> with these three accessors.
\<close>

record key_obj =
  building :: int
  meter :: "int option"
  utility :: "string option"

text \<open>The key argument of a method: the string \<^verbatim>\<open>'/'\<close>, or any other key string, given
  by the object that \<^verbatim>\<open>Key\<close> makes of it.\<close>

datatype key = Root | Path key_obj

subsection \<open>The static label table\<close>

type_synonym addr = nat

record appliance =
  a_type :: string
  a_multiple :: "bool option"
  a_instance :: "int option"

type_synonym heap = "appliance list"

record room =
  room_name :: string

text \<open>An entry of the table: a dictionary with the optional keys \<^verbatim>\<open>'appliances'\<close>,
  \<^verbatim>\<open>'room'\<close> and \<^verbatim>\<open>'category'\<close>. The type parameter is what the appliance list holds:
  appliance dictionaries by value in the literal, addresses once allocated.\<close>

record 'a label_entry =
  appliances :: "'a list option"
  room :: "room option"
  category :: "string option"

definition with_appliances :: "(string \<times> bool option) list \<Rightarrow> appliance label_entry" where
  "with_appliances as =
     \<lparr>appliances = Some (map (\<lambda>(t, m). \<lparr>a_type = t, a_multiple = m, a_instance = None\<rparr>) as),
      room = None, category = None\<rparr>"

definition without_appliances :: "string option \<Rightarrow> string option \<Rightarrow> appliance label_entry" where
  "without_appliances r c =
     \<lparr>appliances = None, room = map_option (\<lambda>n. \<lparr>room_name = n\<rparr>) r, category = c\<rparr>"

text \<open>The literal of lines 11 to 64, in the order of the source.\<close>

definition MAP_REDD_LABELS_TO_NILMTK_literal :: "(string \<times> appliance label_entry) list" where
  "MAP_REDD_LABELS_TO_NILMTK_literal =
    [(''air_conditioning'', with_appliances [(''air conditioner'', None)]),
     (''bathroom_gfi'', without_appliances (Some ''bathroom'') (Some ''misc'')),
     (''dishwaser'', with_appliances [(''dish washer'', None)]),
     (''disposal'', with_appliances [(''waste disposal unit'', None)]),
     (''electric_heat'', with_appliances [(''electric space heater'', None)]),
     (''electronics'', without_appliances None (Some ''consumer electronics'')),
     (''furance'', with_appliances [(''electric boiler'', None)]),
     (''kitchen_outlets'', without_appliances (Some ''kitchen'') (Some ''sockets'')),
     (''lighting'', without_appliances None (Some ''lighting'')),
     (''microwave'', with_appliances [(''microwave'', None)]),
     (''miscellaeneous'', without_appliances None (Some ''misc'')),
     (''outdoor_outlets'', without_appliances (Some ''outdoors'') (Some ''sockets'')),
     (''outlets_unknown'', without_appliances None (Some ''sockets'')),
     (''oven'', with_appliances [(''electric oven'', None)]),
     (''refrigerator'', with_appliances [(''fridge'', None)]),
     (''smoke_alarms'', with_appliances [(''smoke alarm'', Some True)]),
     (''stove'', with_appliances [(''electric stove'', None)]),
     (''subpanel'', without_appliances None None),
     (''washer_dryer'', with_appliances [(''washer dryer'', None)])]"

text \<open>Evaluating the literal when the module is imported creates its objects: every
  appliance dictionary gets the next free address of the store.\<close>

definition alloc_entry :: "appliance label_entry \<Rightarrow> heap \<Rightarrow> addr label_entry \<times> heap" where
  "alloc_entry e h =
     (case appliances e of
        None \<Rightarrow> (\<lparr>appliances = None, room = room e, category = category e\<rparr>, h)
      | Some as \<Rightarrow>
          (\<lparr>appliances = Some [length h ..< length h + length as],
            room = room e, category = category e\<rparr>, h @ as))"

fun alloc_entries ::
  "(string \<times> appliance label_entry) list \<Rightarrow> heap \<Rightarrow> (string \<times> addr label_entry) list \<times> heap"
where
  "alloc_entries [] h = ([], h)"
| "alloc_entries ((k, e) # es) h =
     (let (e', h') = alloc_entry e h;
          (es', h'') = alloc_entries es h'
      in ((k, e') # es', h''))"

definition MAP_REDD_LABELS_TO_NILMTK :: "(string \<times> addr label_entry) list" where
  "MAP_REDD_LABELS_TO_NILMTK = fst (alloc_entries MAP_REDD_LABELS_TO_NILMTK_literal [])"

text \<open>The store right after the import of the module.\<close>

definition module_heap :: heap where
  "module_heap = snd (alloc_entries MAP_REDD_LABELS_TO_NILMTK_literal [])"

subsection \<open>\<^verbatim>\<open>load_labels\<close>\<close>

text \<open>The dictionary \<open>labels\<close> is an association list with distinct keys, in insertion
  order; \<^verbatim>\<open>labels[k] = v\<close> is \<open>AList.update\<close> and \<^verbatim>\<open>labels[k]\<close> is \<open>map_of\<close>.\<close>

type_synonym labels = "(int \<times> string) list"

fun labels_loop :: "(int \<times> string) list \<Rightarrow> labels \<Rightarrow> labels" where
  "labels_loop [] labels = labels"
| "labels_loop (line # lines) labels = labels_loop lines (AList.update (fst line) (snd line) labels)"

definition load_labels :: "filesystem \<Rightarrow> string \<Rightarrow> error + labels" where
  "load_labels fs data_dir =
     (let filename = os_path_join data_dir ''labels.dat''
      in case readlines fs filename of
           None \<Rightarrow> Inl (IOError filename)
         | Some lines \<Rightarrow> Inr (labels_loop lines []))"

subsection \<open>Time frames and data frames\<close>

text \<open>
  A point in time is an integer count of nanoseconds since the epoch, which is what a
  pandas timestamp holds; converting it to the zone \<^verbatim>\<open>'US/Eastern'\<close> changes how it is
  printed and not the instant, so \<^verbatim>\<open>tz_convert\<close> has no counterpart here.
\<close>

record timeframe =
  tf_start :: int
  tf_end :: int
  include_end :: bool

definition TimeFrame :: "int \<Rightarrow> int \<Rightarrow> timeframe" where
  "TimeFrame s e = \<lparr>tf_start = s, tf_end = e, include_end = False\<rparr>"

record dataframe =
  df_rows :: "(int \<times> real) list"
  df_timeframe :: "timeframe option"

definition df_index :: "dataframe \<Rightarrow> int list" where
  "df_index df = map fst (df_rows df)"

text \<open>
  Two things that pandas and numpy leave open are parameters of the model. The first is
  the sort behind \<^verbatim>\<open>df.sort_index()\<close>: by default an unstable quicksort, of which only
  the contract is known (it returns the same rows, ordered by index), not the order it
  gives to rows of equal index. The second is what the cast to int64 returns on a
  floating-point number outside the range of int64, which the language leaves undefined.
\<close>

record library =
  quicksort :: "(int \<times> real) list \<Rightarrow> (int \<times> real) list"
  cast_overflow :: "int \<Rightarrow> int"

definition sort_index :: "library \<Rightarrow> dataframe \<Rightarrow> dataframe" where
  "sort_index lib df = df\<lparr>df_rows := quicksort lib (df_rows df)\<rparr>"

text \<open>
  Floating point, as far as the loader uses it: the float64 nearest to an integer, ties
  to the even significand. \<open>round_even e a\<close> rounds \<open>a \<ge> 0\<close> to a multiple of \<open>2 ^ e\<close>, and
  \<open>e\<close> is chosen so that 53 significant bits are kept. (Integers as large as to overflow
  the exponent of a float64 are far beyond any int64 and play no role.)
\<close>

definition round_even :: "nat \<Rightarrow> int \<Rightarrow> int" where
  "round_even e a =
     (let q = a div 2 ^ e; r = a mod 2 ^ e
      in (if 2 ^ e < 2 * r \<or> (2 * r = 2 ^ e \<and> odd q) then q + 1 else q) * 2 ^ e)"

definition float64 :: "int \<Rightarrow> int" where
  "float64 n = sgn n * round_even (nat (bitlen \<bar>n\<bar> - 53)) \<bar>n\<bar>"

text \<open>\<^verbatim>\<open>.astype(int)\<close> on a float64 of integral value.\<close>

definition astype_int :: "library \<Rightarrow> int \<Rightarrow> int" where
  "astype_int lib v = (if - (2 ^ 63) \<le> v \<and> v < 2 ^ 63 then v else cast_overflow lib v)"

text \<open>\<^verbatim>\<open>pd.to_datetime((df.index.values*1E9).astype(int), utc=True)\<close>, for one index value
  \<open>t\<close> (an int64 count of seconds): \<open>t\<close> is converted to float64, multiplied by the float64
  \<open>1E9\<close> with one rounding of the exact product, and cast to int64, which is then read as
  nanoseconds.\<close>

definition to_datetime :: "library \<Rightarrow> int \<Rightarrow> int" where
  "to_datetime lib t = astype_int lib (float64 (float64 t * 1000000000))"

text \<open>
  Modelled from the spec: the method \<^verbatim>\<open>slice\<close> of \<^verbatim>\<open>TimeFrame\<close> (\<^verbatim>\<open>nilmtk/timeframe.py\<close>,
  not part of the sources at hand). The spec has the collaborator offer "slice data to
  this range" and interval containment, and each output segment "restricted to that
  window and tagged with the intersected span". The look-ahead buffer that the spec
  mentions is not represented: the spec gives it no size.
\<close>

definition contains :: "timeframe \<Rightarrow> int \<Rightarrow> bool" where
  "contains tf t =
     (tf_start tf \<le> t \<and> (if include_end tf then t \<le> tf_end tf else t < tf_end tf))"

definition intersect :: "timeframe \<Rightarrow> timeframe \<Rightarrow> timeframe" where
  "intersect a b =
     \<lparr>tf_start = max (tf_start a) (tf_start b),
      tf_end = min (tf_end a) (tf_end b),
      include_end =
        (if tf_end a < tf_end b then include_end a
         else if tf_end b < tf_end a then include_end b
         else include_end a \<and> include_end b)\<rparr>"

definition slice :: "timeframe \<Rightarrow> dataframe \<Rightarrow> dataframe" where
  "slice period df =
     \<lparr>df_rows = filter (\<lambda>row. contains period (fst row)) (df_rows df),
      df_timeframe = map_option (intersect period) (df_timeframe df)\<rparr>"

subsection \<open>Metadata\<close>

datatype measurement = Power string

record measurement_limit =
  lower_limit :: int
  upper_limit :: int

record meter_device =
  model :: "string option"
  manufacturer :: "string option"
  manufacturer_url :: "string option"
  sample_period :: int
  max_sample_period :: int
  measurements :: "measurement list"
  measurement_limits :: "(measurement \<times> measurement_limit) list"

record building_metadata =
  bm_instance :: int
  bm_dataset :: string
  original_name :: string

text \<open>The dictionary \<^verbatim>\<open>meter_metadata\<close>. The first four keys are always present, the
  others are those that \<^verbatim>\<open>update\<close> may add.\<close>

record 'a meter_metadata =
  device_model :: string
  mm_instance :: int
  mm_building :: int
  mm_dataset :: string
  site_meter :: "bool option"
  additional_channels :: "int list option"
  submeter_of :: "int option"
  mm_appliances :: "'a list option"
  mm_room :: "room option"
  mm_category :: "string option"

datatype 'a metadata =
    DatasetMetadata "(string \<times> meter_device) list"
  | BuildingMetadata building_metadata
  | MeterMetadata "'a meter_metadata"

definition meter_devices :: "(string \<times> meter_device) list" where
  "meter_devices =
     [(''eMonitor'',
       \<lparr>model = Some ''eMonitor'',
        manufacturer = Some ''Powerhouse Dynamics'',
        manufacturer_url = Some ''http://powerhousedynamics.com'',
        sample_period = 3,
        max_sample_period = 50,
        measurements = [Power ''active''],
        measurement_limits = [(Power ''active'', \<lparr>lower_limit = 0, upper_limit = 5000\<rparr>)]\<rparr>),
      (''REDD_whole_house'',
       \<lparr>model = None,
        manufacturer = None,
        manufacturer_url = None,
        sample_period = 1,
        max_sample_period = 30,
        measurements = [Power ''active''],
        measurement_limits = [(Power ''active'', \<lparr>lower_limit = 0, upper_limit = 50000\<rparr>)]\<rparr>)]"

subsection \<open>\<^verbatim>\<open>copy.deepcopy\<close> of a table entry\<close>

text \<open>Every appliance dictionary reached is copied to a fresh address; the memo makes
  an object that occurs twice be copied once. Strings, numbers and the room dictionary
  are values here and need no copy.\<close>

fun deepcopy_list :: "addr list \<Rightarrow> (addr \<times> addr) list \<Rightarrow> heap \<Rightarrow> addr list \<times> heap" where
  "deepcopy_list [] memo h = ([], h)"
| "deepcopy_list (a # as) memo h =
     (case map_of memo a of
        Some a' \<Rightarrow> (let (as', h') = deepcopy_list as memo h in (a' # as', h'))
      | None \<Rightarrow>
          (let a' = length h;
               (as', h') = deepcopy_list as ((a, a') # memo) (h @ [h ! a])
           in (a' # as', h')))"

definition deepcopy :: "addr label_entry \<Rightarrow> heap \<Rightarrow> addr label_entry \<times> heap" where
  "deepcopy e h =
     (case appliances e of
        None \<Rightarrow> (e, h)
      | Some as \<Rightarrow> (let (as', h') = deepcopy_list as [] h in (e\<lparr>appliances := Some as'\<rparr>, h')))"

text \<open>\<^verbatim>\<open>meter_metadata.update(entry)\<close>: the keys of the entry are set, the others kept.\<close>

definition update_metadata :: "'a meter_metadata \<Rightarrow> 'a label_entry \<Rightarrow> 'a meter_metadata" where
  "update_metadata mm e =
     mm\<lparr>mm_appliances := (case appliances e of None \<Rightarrow> mm_appliances mm | Some as \<Rightarrow> Some as),
        mm_room := (case room e of None \<Rightarrow> mm_room mm | Some r \<Rightarrow> Some r),
        mm_category := (case category e of None \<Rightarrow> mm_category mm | Some c \<Rightarrow> Some c)\<rparr>"

subsection \<open>The class \<^verbatim>\<open>REDDStore\<close>\<close>

record REDDStore =
  path :: string

definition REDDStore_init :: "filesystem \<Rightarrow> string \<Rightarrow> error + REDDStore" where
  "REDDStore_init fs p =
     (if \<not> isdir fs p then Inl (ValueError ([CHR 0x27] @ p @ [CHR 0x27] @ '' is not a valid path''))
      else Inr \<lparr>path = p\<rparr>)"

text \<open>\<^verbatim>\<open>_path_for_house\<close>. Its first assertion is about the type of the argument and holds
  by typing; the second one, on the directory, is an AssertionError when it fails
  (assertions are taken to be enabled).\<close>

definition path_for_house :: "filesystem \<Rightarrow> REDDStore \<Rightarrow> key_obj \<Rightarrow> error + string" where
  "path_for_house fs self key_obj =
     (let house_dir = ''house_'' @ format_d (building key_obj);
          house_path = os_path_join (path self) house_dir
      in if isdir fs house_path then Inr house_path else Inl AssertionError)"

text \<open>
  \<^verbatim>\<open>load\<close> is a generator: nothing of its body runs before the first segment is asked
  for. The model gives the outcome of running it to its end: the exception that stops
  it, or the list of the segments it yields, in order.
\<close>

definition load ::
  "library \<Rightarrow> filesystem \<Rightarrow> REDDStore \<Rightarrow> key_obj \<Rightarrow> timeframe list option
     \<Rightarrow> error + dataframe list"
where
  "load lib fs self key_obj periods =
     (case path_for_house fs self key_obj of
        Inl e \<Rightarrow> Inl e
      | Inr house_path \<Rightarrow>
          (case meter key_obj of
             None \<Rightarrow> Inl FormatError
           | Some m \<Rightarrow>
               (let filename = os_path_join house_path (''channel_'' @ format_d m @ ''.dat'')
                in case read_csv fs filename of
                     None \<Rightarrow> Inl (IOError filename)
                   | Some rows \<Rightarrow>
                       (let df = sort_index lib \<lparr>df_rows = rows, df_timeframe = None\<rparr>;
                            df = df\<lparr>df_rows :=
                                   map (\<lambda>row. (to_datetime lib (fst row), snd row)) (df_rows df)\<rparr>
                        in if df_index df = [] then Inl IndexError
                           else
                             (let df = df\<lparr>df_timeframe :=
                                    Some ((TimeFrame (hd (df_index df)) (last (df_index df)))
                                            \<lparr>include_end := True\<rparr>)\<rparr>
                              in case periods of
                                   None \<Rightarrow> Inr [df]
                                 | Some [] \<Rightarrow> Inr [df]
                                 | Some (p # ps) \<Rightarrow> Inr (map (\<lambda>period. slice period df) (p # ps)))))))"

subsection \<open>\<^verbatim>\<open>load_metadata\<close>\<close>

text \<open>The inner loop of lines 232 to 235: \<open>is\<close> is what is left of \<^verbatim>\<open>range(1, key_obj.meter)\<close>,
  and \<^verbatim>\<open>labels[i]\<close> raises KeyError on a channel number that the label file lacks.\<close>

fun count_instance :: "labels \<Rightarrow> string \<Rightarrow> int list \<Rightarrow> int \<Rightarrow> error + int" where
  "count_instance labels redd_label [] inst = Inr inst"
| "count_instance labels redd_label (i # is) inst =
     (case map_of labels i of
        None \<Rightarrow> Inl (KeyError (IntKey i))
      | Some l \<Rightarrow> count_instance labels redd_label is (if l = redd_label then inst + 1 else inst))"

text \<open>The outer loop of lines 231 to 236, over the appliance dictionaries of the
  metadata: each gets its key \<^verbatim>\<open>'instance'\<close> written in the store.\<close>

fun set_instances :: "labels \<Rightarrow> string \<Rightarrow> int \<Rightarrow> addr list \<Rightarrow> heap \<Rightarrow> error option \<times> heap" where
  "set_instances labels redd_label m [] h = (None, h)"
| "set_instances labels redd_label m (a # as) h =
     (case count_instance labels redd_label [1 .. m - 1] 1 of
        Inl e \<Rightarrow> (Some e, h)
      | Inr inst \<Rightarrow>
          set_instances labels redd_label m as (h[a := (h ! a)\<lparr>a_instance := Some inst\<rparr>]))"

text \<open>The method takes the store of objects and returns it with the result: the
  metadata of a meter holds the addresses of its appliance dictionaries.\<close>

definition load_metadata ::
  "filesystem \<Rightarrow> REDDStore \<Rightarrow> heap \<Rightarrow> key \<Rightarrow> (error + addr metadata) \<times> heap"
where
  "load_metadata fs self h k =
     (case k of
        Root \<Rightarrow> (Inr (DatasetMetadata meter_devices), h)
      | Path key_obj \<Rightarrow>
          if \<not> (1 \<le> building key_obj \<and> building key_obj \<le> 6)
          then (Inl (ValueError (''Building '' @ format_d (building key_obj)
                                   @ '' is not a valid building instance.'')), h)
          else
            (case meter key_obj of
               None \<Rightarrow>
                 (Inr (BuildingMetadata
                        \<lparr>bm_instance = building key_obj,
                         bm_dataset = ''REDD'',
                         original_name = ''house_'' @ format_d (building key_obj)\<rparr>), h)
             | Some m \<Rightarrow>
                 (let meter_metadata =
                        \<lparr>device_model = (if m = 1 then ''REDD_whole_house'' else ''eMonitor''),
                         mm_instance = m,
                         mm_building = building key_obj,
                         mm_dataset = ''REDD'',
                         site_meter = None,
                         additional_channels = None,
                         submeter_of = None,
                         mm_appliances = None,
                         mm_room = None,
                         mm_category = None\<rparr>
                  in if m = 1
                     then (Inr (MeterMetadata
                                 (meter_metadata\<lparr>site_meter := Some True,
                                                 additional_channels := Some [2]\<rparr>)), h)
                     else if m = 2
                     then (Inl (ValueError ''Mains channel 2 is loaded by meter1.''), h)
                     else
                       (let meter_metadata = meter_metadata\<lparr>submeter_of := Some 1\<rparr>
                        in case path_for_house fs self key_obj of
                             Inl e \<Rightarrow> (Inl e, h)
                           | Inr building_path \<Rightarrow>
                               (case load_labels fs building_path of
                                  Inl e \<Rightarrow> (Inl e, h)
                                | Inr labels \<Rightarrow>
                                    (case map_of labels m of
                                       None \<Rightarrow>
                                         (Inl (ValueError
                                                (format_d m
                                                 @ '' is not a recognised meter instance for building ''
                                                 @ format_d (building key_obj) @ ''.'')), h)
                                     | Some redd_label \<Rightarrow>
                                         (case map_of MAP_REDD_LABELS_TO_NILMTK redd_label of
                                            None \<Rightarrow> (Inl (KeyError (StrKey redd_label)), h)
                                          | Some entry \<Rightarrow>
                                              (let (entry', h') = deepcopy entry h;
                                                   meter_metadata = update_metadata meter_metadata entry';
                                                   appliances =
                                                     (case mm_appliances meter_metadata of
                                                        None \<Rightarrow> []
                                                      | Some as \<Rightarrow> as)
                                               in case set_instances labels redd_label m appliances h' of
                                                    (Some e, h'') \<Rightarrow> (Inl e, h'')
                                                  | (None, h'') \<Rightarrow>
                                                      (Inr (MeterMetadata meter_metadata), h'')))))))))"

subsection \<open>\<^verbatim>\<open>elements_below_key\<close>\<close>

text \<open>The argument is \<open>None\<close> for Python's \<^verbatim>\<open>None\<close>. With a building number that is always
  there (see \<open>key_obj\<close>), the first assertion of the source cannot fail; the second
  one can.\<close>

definition elements_below_key :: "filesystem \<Rightarrow> REDDStore \<Rightarrow> key option \<Rightarrow> error + string list" where
  "elements_below_key fs self k =
     (case k of
        None \<Rightarrow> Inr (map (\<lambda>b. ''building'' @ format_d b) [1 .. 6])
      | Some Root \<Rightarrow> Inr (map (\<lambda>b. ''building'' @ format_d b) [1 .. 6])
      | Some (Path key_obj) \<Rightarrow>
          if meter key_obj \<noteq> None then Inl AssertionError
          else if \<not> (1 \<le> building key_obj \<and> building key_obj \<le> 6)
          then Inl (ValueError (''Building '' @ format_d (building key_obj)
                                  @ '' is not a valid building instance.''))
          else if utility key_obj = None then Inr [''electric'']
          else
            (case path_for_house fs self key_obj of
               Inl e \<Rightarrow> Inl e
             | Inr house_path \<Rightarrow>
                 (case load_labels fs house_path of
                    Inl e \<Rightarrow> Inl e
                  | Inr labels \<Rightarrow>
                      Inr (map (\<lambda>meter. ''meter'' @ format_d meter)
                             (filter (\<lambda>meter. meter \<notin> set [2]) (map fst labels))))))"

text \<open>The value of a result: every address replaced by the dictionary it holds in the
  store, which is what the caller reads and what Python's \<^verbatim>\<open>==\<close> compares.\<close>

definition deref_meter :: "heap \<Rightarrow> addr meter_metadata \<Rightarrow> appliance meter_metadata" where
  "deref_meter h mm =
     \<lparr>device_model = device_model mm,
      mm_instance = mm_instance mm,
      mm_building = mm_building mm,
      mm_dataset = mm_dataset mm,
      site_meter = site_meter mm,
      additional_channels = additional_channels mm,
      submeter_of = submeter_of mm,
      mm_appliances = map_option (map (\<lambda>a. h ! a)) (mm_appliances mm),
      mm_room = mm_room mm,
      mm_category = mm_category mm\<rparr>"

fun deref :: "heap \<Rightarrow> addr metadata \<Rightarrow> appliance metadata" where
  "deref h (DatasetMetadata d) = DatasetMetadata d"
| "deref h (BuildingMetadata b) = BuildingMetadata b"
| "deref h (MeterMetadata mm) = MeterMetadata (deref_meter h mm)"

subsection \<open>Auxiliary definitions\<close>

text \<open>Reading a decimal numeral back, to show that formatting loses nothing.\<close>

definition nat_of_str :: "string \<Rightarrow> nat" where
  "nat_of_str s = foldl (\<lambda>a c. 10 * a + (of_char c - 48)) 0 s"

text \<open>Every appliance dictionary of the static table is an object of the store.\<close>

definition table_in_heap :: "heap \<Rightarrow> bool" where
  "table_in_heap h =
     list_all (\<lambda>(l, e). case appliances e of
                           None \<Rightarrow> True
                         | Some as \<Rightarrow> list_all (\<lambda>a. a < length h) as)
       MAP_REDD_LABELS_TO_NILMTK"

text \<open>The dictionary returned for a submeter: the four keys of every meter, the key
  \<^verbatim>\<open>'submeter_of'\<close>, and what the table entry \<open>e\<close> contributes, with \<open>as\<close> for its
  appliances.\<close>

definition submeter_metadata ::
  "int \<Rightarrow> int \<Rightarrow> 'a label_entry \<Rightarrow> 'b list option \<Rightarrow> 'b meter_metadata"
where
  "submeter_metadata b m e as =
     \<lparr>device_model = ''eMonitor'', mm_instance = m, mm_building = b, mm_dataset = ''REDD'',
      site_meter = None, additional_channels = None, submeter_of = Some 1,
      mm_appliances = as, mm_room = room e, mm_category = category e\<rparr>"

text \<open>A reading of a channel file as \<^verbatim>\<open>load\<close> presents it: the timestamp converted, the
  value as it is.\<close>

definition reading :: "library \<Rightarrow> int \<times> real \<Rightarrow> int \<times> real" where
  "reading lib row = (to_datetime lib (fst row), snd row)"

text \<open>The rows of the data frame that \<^verbatim>\<open>load\<close> builds before it looks at the periods, and
  that data frame.\<close>

definition channel_rows :: "library \<Rightarrow> (int \<times> real) list \<Rightarrow> (int \<times> real) list" where
  "channel_rows lib rows = map (reading lib) (quicksort lib rows)"

definition channel_df :: "library \<Rightarrow> (int \<times> real) list \<Rightarrow> dataframe" where
  "channel_df lib rows =
     \<lparr>df_rows = channel_rows lib rows,
      df_timeframe = Some \<lparr>tf_start = hd (map fst (channel_rows lib rows)),
                            tf_end = last (map fst (channel_rows lib rows)),
                            include_end = True\<rparr>\<rparr>"

subsection \<open>A small data set\<close>

text \<open>Three houses under \<^verbatim>\<open>/data\<close>. House 1 has two smoke-alarm channels, at 5 and 9;
  the label file of house 2 lacks channel 4 and lists a channel 0; house 3 has a label
  that the static table does not know. There is no directory for house 4; house 1 has
  no file for channel 4, and its file for channel 5 is empty. The library sorts by
  insertion and casts as the conversion instruction of x86-64 does.\<close>

definition house_1_labels :: "(int \<times> string) list" where
  "house_1_labels =
     [(1, ''mains''), (2, ''mains''), (3, ''oven''), (4, ''refrigerator''),
      (5, ''smoke_alarms''), (6, ''lighting''), (7, ''microwave''),
      (8, ''kitchen_outlets''), (9, ''smoke_alarms'')]"

definition house_2_labels :: "(int \<times> string) list" where
  "house_2_labels =
     [(0, ''microwave''), (1, ''mains''), (2, ''mains''), (3, ''microwave''),
      (5, ''microwave'')]"

definition house_3_labels :: "(int \<times> string) list" where
  "house_3_labels = [(1, ''mains''), (2, ''mains''), (3, ''sump_pump'')]"

definition example_fs :: filesystem where
  "example_fs =
     \<lparr>isdir = (\<lambda>p. p \<in> set [''/data'', ''/data/house_1'', ''/data/house_2'', ''/data/house_3'']),
      readlines =
        [''/data/house_1/labels.dat'' \<mapsto> house_1_labels,
         ''/data/house_2/labels.dat'' \<mapsto> house_2_labels,
         ''/data/house_3/labels.dat'' \<mapsto> house_3_labels],
      read_csv =
        [''/data/house_1/channel_3.dat'' \<mapsto> [(30, 3 / 2), (10, 2), (20, 0)],
         ''/data/house_1/channel_5.dat'' \<mapsto> []]\<rparr>"

definition example_library :: library where
  "example_library = \<lparr>quicksort = sort_key fst, cast_overflow = (\<lambda>v. - (2 ^ 63))\<rparr>"

definition example_store :: REDDStore where
  "example_store = \<lparr>path = ''/data''\<rparr>"

section \<open>Properties\<close>

subsection \<open>Formatting\<close>

lemma digit_cases:
  "d < 10 \<Longrightarrow> d = 0 \<or> d = 1 \<or> d = 2 \<or> d = 3 \<or> d = 4 \<or> d = 5 \<or> d = 6 \<or> d = 7 \<or> d = 8 \<or> d = (9::nat)"
  by arith

lemma of_char_digit: "d < 10 \<Longrightarrow> (of_char (digit d) :: nat) = 48 + d"
  using digit_cases [of d] by (auto simp: digit_def)

lemma digit_in: "d < 10 \<Longrightarrow> digit d \<in> set ''0123456789''"
  using digit_cases [of d] by (auto simp: digit_def)

lemma nat_of_str_snoc: "nat_of_str (s @ [c]) = 10 * nat_of_str s + (of_char c - 48)"
  by (simp add: nat_of_str_def)

lemma nat_of_str_str_nat: "nat_of_str (str_nat n) = n"
proof (induction n rule: str_nat.induct)
  case (1 n)
  show ?case
  proof (cases "n < 10")
    case True
    then show ?thesis
      by (subst str_nat.simps) (simp add: nat_of_str_def of_char_digit)
  next
    case False
    then have "nat_of_str (str_nat (n div 10)) = n div 10"
      using 1 by simp
    with False show ?thesis
      by (subst str_nat.simps) (simp add: nat_of_str_snoc of_char_digit)
  qed
qed

lemma str_nat_inj: "str_nat m = str_nat n \<Longrightarrow> m = n"
  by (metis nat_of_str_str_nat)

lemma str_nat_digits: "set (str_nat n) \<subseteq> set ''0123456789''"
proof (induction n rule: str_nat.induct)
  case (1 n)
  show ?case
  proof (cases "n < 10")
    case True
    then show ?thesis
      using digit_in [of n] by (subst str_nat.simps) simp
  next
    case False
    then have "set (str_nat (n div 10)) \<subseteq> set ''0123456789''"
      using 1 by simp
    moreover have "digit (n mod 10) \<in> set ''0123456789''"
      by (rule digit_in) simp
    ultimately show ?thesis
      using False by (subst str_nat.simps) simp
  qed
qed

lemma str_nat_no_minus: "str_nat n \<noteq> CHR ''-'' # s"
proof
  assume "str_nat n = CHR ''-'' # s"
  then have "CHR ''-'' \<in> set (str_nat n)" by simp
  with str_nat_digits [of n] show False by auto
qed

lemma format_d_inj: "format_d i = format_d j \<Longrightarrow> i = j"
  unfolding format_d_def
  by (auto split: if_splits dest!: str_nat_inj simp: str_nat_no_minus str_nat_no_minus [symmetric])

lemma format_d_small: "0 \<le> i \<Longrightarrow> i < 10 \<Longrightarrow> format_d i = [digit (nat i)]"
  by (simp add: format_d_def str_nat.simps)

lemma format_d_2: "format_d 2 = ''2''"
  by (simp add: format_d_small digit_def)

lemma format_d_eq_2: "format_d m = ''2'' \<longleftrightarrow> m = 2"
  using format_d_inj [of m 2] format_d_2 by auto

lemma upto_1_6: "[1 .. 6] = [1, 2, 3, 4, 5, (6::int)]"
  by (simp add: upto_rec1)

lemma buildings:
  "map (\<lambda>b. ''building'' @ format_d b) [1 .. 6] =
     [''building1'', ''building2'', ''building3'', ''building4'', ''building5'', ''building6'']"
  by (simp add: upto_1_6 format_d_small digit_def)

subsection \<open>Metadata of the two mains channels\<close>

text \<open>
  Claim C2. For every building 1 to 6, \<^verbatim>\<open>load_metadata\<close> for meter 1 returns metadata
  that marks the meter as the site meter, lists channel 2 as an additional channel and
  reports the device model \<^verbatim>\<open>REDD_whole_house\<close>. The theorem gives the whole dictionary
  returned, whatever the file system holds, and the store of objects is left as it was.
\<close>

theorem load_metadata_meter1:
  assumes "1 \<le> b" and "b \<le> 6"
  shows "load_metadata fs self h (Path \<lparr>building = b, meter = Some 1, utility = u\<rparr>) =
     (Inr (MeterMetadata
        \<lparr>device_model = ''REDD_whole_house'', mm_instance = 1, mm_building = b,
         mm_dataset = ''REDD'', site_meter = Some True, additional_channels = Some [2],
         submeter_of = None, mm_appliances = None, mm_room = None, mm_category = None\<rparr>), h)"
  using assms by (simp add: load_metadata_def)

theorem load_metadata_meter1_witness:
  "(1::int) \<le> 4 \<and> (4::int) \<le> 6 \<and>
   load_metadata example_fs example_store module_heap
       (Path \<lparr>building = 4, meter = Some 1, utility = Some ''electric''\<rparr>) =
     (Inr (MeterMetadata
        \<lparr>device_model = ''REDD_whole_house'', mm_instance = 1, mm_building = 4,
         mm_dataset = ''REDD'', site_meter = Some True, additional_channels = Some [2],
         submeter_of = None, mm_appliances = None, mm_room = None, mm_category = None\<rparr>),
      module_heap)"
  using load_metadata_meter1 [of 4 example_fs example_store module_heap "Some ''electric''"]
  by simp

text \<open>
  Claim C3. For every building 1 to 6, \<^verbatim>\<open>load_metadata\<close> for meter 2 fails with an
  invalid-input error (ValueError), whatever the label file of the house holds: the file
  system \<open>fs\<close> is arbitrary.
\<close>

theorem load_metadata_meter2:
  assumes "1 \<le> b" and "b \<le> 6"
  shows "load_metadata fs self h (Path \<lparr>building = b, meter = Some 2, utility = u\<rparr>) =
     (Inl (ValueError ''Mains channel 2 is loaded by meter1.''), h)"
  using assms by (simp add: load_metadata_def)

theorem load_metadata_meter2_witness:
  "(1::int) \<le> 1 \<and> (1::int) \<le> 6 \<and>
   load_metadata example_fs example_store module_heap
       (Path \<lparr>building = 1, meter = Some 2, utility = None\<rparr>) =
     (Inl (ValueError ''Mains channel 2 is loaded by meter1.''), module_heap)"
  using load_metadata_meter2 [of 1 example_fs example_store module_heap None]
  by simp

subsection \<open>Listing the hierarchy\<close>

text \<open>
  Claim C5. \<^verbatim>\<open>elements_below_key\<close> at the root (key \<^verbatim>\<open>'/'\<close> or \<^verbatim>\<open>None\<close>) returns exactly
  the six identifiers \<^verbatim>\<open>building1\<close> to \<^verbatim>\<open>building6\<close>, in this order, whatever directories
  and files exist: the file system \<open>fs\<close> and the store are arbitrary.
\<close>

theorem elements_below_key_root:
  "elements_below_key fs self None =
     Inr [''building1'', ''building2'', ''building3'', ''building4'', ''building5'', ''building6'']
   \<and> elements_below_key fs self (Some Root) =
     Inr [''building1'', ''building2'', ''building3'', ''building4'', ''building5'', ''building6'']"
  unfolding elements_below_key_def buildings by simp_all

theorem elements_below_key_root_witness:
  "elements_below_key example_fs example_store (Some Root) =
     Inr [''building1'', ''building2'', ''building3'', ''building4'', ''building5'', ''building6'']"
  using elements_below_key_root [of example_fs example_store] by simp

subsection \<open>The label dictionary\<close>

lemma labels_loop_keys: "fst ` set (labels_loop lines acc) = fst ` set lines \<union> fst ` set acc"
  by (induction lines arbitrary: acc) (auto simp: AList.dom_update)

lemma labels_loop_distinct:
  "distinct (map fst acc) \<Longrightarrow> distinct (map fst (labels_loop lines acc))"
  by (induction lines arbitrary: acc) (simp_all add: AList.distinct_update)

text \<open>Where a channel number occurs on several lines, the last line counts.\<close>

lemma labels_loop_map_of:
  "map_of (labels_loop lines acc) = map_of acc ++ map_of (rev lines)"
  by (induction lines arbitrary: acc)
    (simp_all add: AList.update_conv' map_add_upd_left fun_eq_iff map_add_def split: option.splits)

lemma load_labels_Inr:
  "load_labels fs hp = Inr labels \<longleftrightarrow>
     (\<exists>lines. readlines fs (os_path_join hp ''labels.dat'') = Some lines
        \<and> labels = labels_loop lines [])"
  by (auto simp: load_labels_def Let_def split: option.splits)

subsection \<open>Facts about the small data set\<close>

lemma example_house_1:
  "path_for_house example_fs example_store \<lparr>building = 1, meter = m, utility = u\<rparr> =
     Inr ''/data/house_1''"
  by (simp add: path_for_house_def example_fs_def example_store_def os_path_join_def
      format_d_small digit_def)

lemma example_house_2:
  "path_for_house example_fs example_store \<lparr>building = 2, meter = m, utility = u\<rparr> =
     Inr ''/data/house_2''"
  by (simp add: path_for_house_def example_fs_def example_store_def os_path_join_def
      format_d_small digit_def)

lemma example_house_3:
  "path_for_house example_fs example_store \<lparr>building = 3, meter = m, utility = u\<rparr> =
     Inr ''/data/house_3''"
  by (simp add: path_for_house_def example_fs_def example_store_def os_path_join_def
      format_d_small digit_def)

lemma example_house_4:
  "\<not> isdir example_fs (os_path_join (path example_store) (''house_'' @ format_d 4))"
  by (simp add: example_fs_def example_store_def os_path_join_def format_d_small digit_def)

lemma example_labels_1:
  "readlines example_fs (os_path_join ''/data/house_1'' ''labels.dat'') = Some house_1_labels"
  by (simp add: example_fs_def os_path_join_def)

lemma example_labels_2:
  "readlines example_fs (os_path_join ''/data/house_2'' ''labels.dat'') = Some house_2_labels"
  by (simp add: example_fs_def os_path_join_def)

lemma example_labels_3:
  "readlines example_fs (os_path_join ''/data/house_3'' ''labels.dat'') = Some house_3_labels"
  by (simp add: example_fs_def os_path_join_def)

lemma example_channel_3:
  "read_csv example_fs (os_path_join ''/data/house_1'' (''channel_'' @ format_d 3 @ ''.dat'')) =
     Some [(30, 3 / 2), (10, 2), (20, 0)]"
  by (simp add: example_fs_def os_path_join_def format_d_small digit_def)

lemma example_channel_4:
  "read_csv example_fs (os_path_join ''/data/house_1'' (''channel_'' @ format_d 4 @ ''.dat'')) = None"
  by (simp add: example_fs_def os_path_join_def format_d_small digit_def)

lemma example_channel_5:
  "read_csv example_fs (os_path_join ''/data/house_1'' (''channel_'' @ format_d 5 @ ''.dat'')) =
     Some []"
  by (simp add: example_fs_def os_path_join_def format_d_small digit_def)

subsection \<open>Listing the meters of a building\<close>

text \<open>
  Claim C6. For every building 1 to 6 with an existing house directory,
  \<^verbatim>\<open>elements_below_key\<close> at the utility level returns one meter identifier per channel
  listed in the label file of the house except channel 2, and the result never includes
  \<^verbatim>\<open>meter2\<close>. Here \<open>lines\<close> are the lines of the label file and \<open>ms\<close> the channel numbers
  behind the identifiers returned: each listed channel other than 2 occurs once in \<open>ms\<close>,
  and different channels have different identifiers.
\<close>

theorem elements_below_key_meters:
  assumes "1 \<le> building k" and "building k \<le> 6"
    and "meter k = None" and "utility k = Some u"
    and "path_for_house fs self k = Inr hp"
    and "readlines fs (os_path_join hp ''labels.dat'') = Some lines"
  shows "\<exists>ms. elements_below_key fs self (Some (Path k)) = Inr (map (\<lambda>m. ''meter'' @ format_d m) ms)
           \<and> distinct ms \<and> set ms = fst ` set lines - {2}
           \<and> distinct (map (\<lambda>m. ''meter'' @ format_d m) ms)
           \<and> ''meter2'' \<notin> set (map (\<lambda>m. ''meter'' @ format_d m) ms)"
proof -
  define ms where "ms = filter (\<lambda>m. m \<notin> set [2]) (map fst (labels_loop lines []))"
  have res: "elements_below_key fs self (Some (Path k)) = Inr (map (\<lambda>m. ''meter'' @ format_d m) ms)"
    using assms by (simp add: elements_below_key_def load_labels_def ms_def)
  have d: "distinct ms"
    unfolding ms_def by (rule distinct_filter) (simp add: labels_loop_distinct)
  have s: "set ms = fst ` set lines - {2}"
    unfolding ms_def using labels_loop_keys [of lines "[]"] by auto
  have dn: "distinct (map (\<lambda>m. ''meter'' @ format_d m) ms)"
    using d by (simp add: distinct_map inj_on_def format_d_inj)
  have "''meter2'' \<notin> set (map (\<lambda>m. ''meter'' @ format_d m) ms)"
    using s format_d_eq_2 by (auto simp: eq_commute [of "''2''"])
  with res d s dn show ?thesis by blast
qed

theorem elements_below_key_meters_witness:
  "path_for_house example_fs example_store \<lparr>building = 1, meter = None, utility = Some ''electric''\<rparr>
     = Inr ''/data/house_1''
   \<and> readlines example_fs (os_path_join ''/data/house_1'' ''labels.dat'') = Some house_1_labels
   \<and> (\<exists>ms. elements_below_key example_fs example_store
              (Some (Path \<lparr>building = 1, meter = None, utility = Some ''electric''\<rparr>))
            = Inr (map (\<lambda>m. ''meter'' @ format_d m) ms)
          \<and> distinct ms \<and> set ms = fst ` set house_1_labels - {2}
          \<and> distinct (map (\<lambda>m. ''meter'' @ format_d m) ms)
          \<and> ''meter2'' \<notin> set (map (\<lambda>m. ''meter'' @ format_d m) ms))"
  using elements_below_key_meters
    [of "\<lparr>building = 1, meter = None, utility = Some ''electric''\<rparr>" "''electric''"
        example_fs example_store "''/data/house_1''" house_1_labels]
    example_house_1 [of None "Some ''electric''"] example_labels_1
  by simp

subsection \<open>Rounding to float64\<close>


lemma round_even_multiple: "round_even e (m * 2 ^ e) = m * 2 ^ e"
  by (simp add: round_even_def Let_def)



lemma float64_minus: "float64 (- n) = - float64 n"
  by (simp add: float64_def sgn_minus)


lemma float64_pos: "0 \<le> n \<Longrightarrow> float64 n = round_even (nat (bitlen n - 53)) n"
  by (cases "n = 0") (simp_all add: float64_def round_even_def sgn_if)




text \<open>An integer with at most 53 significant bits is a float64.\<close>

lemma float64_exact_nonneg:
  assumes "0 \<le> m" and "m < 2 ^ 53"
  shows "float64 (m * 2 ^ k) = m * 2 ^ k"
proof -
  define e where "e = nat (bitlen (m * 2 ^ k) - 53)"
  have "m * 2 ^ k < 2 ^ (53 + k)"
    using assms(2) by (simp add: power_add)
  then have "bitlen (m * 2 ^ k) \<le> 53 + int k"
    using bitlen_le_iff_power [of "m * 2 ^ k" "53 + int k"] by (simp add: nat_add_distrib)
  then have "e \<le> k" unfolding e_def by simp
  then obtain d where k: "k = d + e" by (metis le_add_diff_inverse2)
  have "round_even e ((m * 2 ^ d) * 2 ^ e) = (m * 2 ^ d) * 2 ^ e"
    by (rule round_even_multiple)
  then have "round_even e (m * 2 ^ k) = m * 2 ^ k"
    by (simp add: k power_add mult.assoc)
  moreover have "0 \<le> m * 2 ^ k" using assms(1) by simp
  ultimately show ?thesis
    by (simp add: float64_pos e_def)
qed

lemma float64_exact:
  assumes "\<bar>m\<bar> < 2 ^ 53"
  shows "float64 (m * 2 ^ k) = m * 2 ^ k"
proof (cases "0 \<le> m")
  case True
  with assms show ?thesis by (simp add: float64_exact_nonneg)
next
  case False
  then have "float64 ((- m) * 2 ^ k) = (- m) * 2 ^ k"
    using assms by (intro float64_exact_nonneg) simp_all
  then show ?thesis
    using float64_minus [of "m * 2 ^ k"] by simp
qed

lemma float64_small: "\<bar>n\<bar> < 2 ^ 53 \<Longrightarrow> float64 n = n"
  using float64_exact [of n 0] by simp




subsection \<open>Converting timestamps\<close>

text \<open>Up to 4611686018 seconds the product with \<open>10^9 = 5^9 * 2^9\<close> has at most 53
  significant bits and the conversion is exact; one second later it is not.\<close>

lemma to_datetime_exact:
  assumes "\<bar>t\<bar> \<le> 4611686018"
  shows "to_datetime lib t = t * 1000000000"
proof -
  have 1: "float64 t = t"
    using assms by (intro float64_small) simp
  have "\<bar>t * 1953125\<bar> < 2 ^ 53"
    using assms by (simp add: abs_mult)
  from float64_exact [OF this, of 9]
  have 2: "float64 (t * 1000000000) = t * 1000000000"
    by (simp add: mult.commute)
  have "- 4611686018 \<le> t" and "t \<le> 4611686018"
    using assms by (simp_all add: abs_le_iff)
  then have "- (2 ^ 63) \<le> t * 1000000000 \<and> t * 1000000000 < 2 ^ 63"
    by simp
  then have "astype_int lib (t * 1000000000) = t * 1000000000"
    unfolding astype_int_def by (rule if_P)
  then show ?thesis
    by (simp only: to_datetime_def 1 2)
qed

lemma to_datetime_4611686019: "to_datetime lib 4611686019 = 4611686019000000512"
proof -
  have b: "bitlen 4611686019000000000 = 63"
  proof -
    have "bitlen 4611686019000000000 \<le> 63"
      unfolding bitlen_le_iff_power by simp
    moreover have "63 \<le> bitlen 4611686019000000000"
      unfolding bitlen_ge_iff_power by simp
    ultimately show ?thesis by simp
  qed
  have "float64 4611686019 = 4611686019"
    by (intro float64_small) simp
  moreover have "float64 4611686019000000000 = 4611686019000000512"
    by (simp add: float64_def b round_even_def)
  ultimately show ?thesis
    by (simp add: to_datetime_def astype_int_def)
qed




subsection \<open>Loading the readings of a channel\<close>

lemma load_IndexError:
  assumes "path_for_house fs self k = Inr hp" and "meter k = Some m"
    and "read_csv fs (os_path_join hp (''channel_'' @ format_d m @ ''.dat'')) = Some rows"
    and "quicksort lib rows = []"
  shows "load lib fs self k periods = Inl IndexError"
  using assms by (simp add: load_def Let_def sort_index_def df_index_def)

lemma reading_eq: "reading lib = (\<lambda>row. (to_datetime lib (fst row), snd row))"
  by (simp add: fun_eq_iff reading_def)

lemma load_Inr:
  assumes "path_for_house fs self k = Inr hp" and "meter k = Some m"
    and "read_csv fs (os_path_join hp (''channel_'' @ format_d m @ ''.dat'')) = Some rows"
    and "quicksort lib rows \<noteq> []"
  shows "load lib fs self k periods =
     Inr (case periods of
            None \<Rightarrow> [channel_df lib rows]
          | Some [] \<Rightarrow> [channel_df lib rows]
          | Some (p # ps) \<Rightarrow> map (\<lambda>period. slice period (channel_df lib rows)) (p # ps))"
  using assms
  by (simp add: load_def Let_def sort_index_def df_index_def channel_df_def channel_rows_def
      reading_eq TimeFrame_def split: option.splits list.splits)

lemma quicksort_empty:
  "mset (quicksort lib rows) = mset rows \<Longrightarrow> quicksort lib rows = [] \<longleftrightarrow> rows = []"
  by (metis mset_zero_iff)

lemma mset_channel_rows:
  "mset (quicksort lib rows) = mset rows \<Longrightarrow>
     mset (channel_rows lib rows) = image_mset (reading lib) (mset rows)"
  by (simp add: channel_rows_def)




lemma example_library_sorts:
  "sorted (map fst (quicksort example_library rows))"
  "mset (quicksort example_library rows) = mset rows"
  by (simp_all add: example_library_def)

lemma example_channel_rows:
  "channel_rows example_library [(30, 3 / 2), (10, 2), (20, 0)] =
     [(10000000000, 2), (20000000000, 0), (30000000000, 3 / 2)]"
  by (simp add: channel_rows_def example_library_def reading_def to_datetime_exact)

lemma example_load_3:
  "load example_library example_fs example_store \<lparr>building = 1, meter = Some 3, utility = None\<rparr>
       periods =
     Inr (case periods of
            None \<Rightarrow> [channel_df example_library [(30, 3 / 2), (10, 2), (20, 0)]]
          | Some [] \<Rightarrow> [channel_df example_library [(30, 3 / 2), (10, 2), (20, 0)]]
          | Some (p # ps) \<Rightarrow>
              map (\<lambda>period. slice period (channel_df example_library [(30, 3 / 2), (10, 2), (20, 0)]))
                (p # ps))"
  by (rule load_Inr [OF example_house_1 _ example_channel_3])
    (simp_all add: example_library_def)



text \<open>
  Claim C8, as amended. For every key whose house directory and channel file exist, the
  file holding at least one row: if a non-empty list of \<open>n\<close> time windows is supplied,
  \<^verbatim>\<open>load\<close> yields exactly \<open>n\<close> segments, one per window in list order, each restricted to
  its window; if no window list is supplied, \<^verbatim>\<open>load\<close> yields exactly one segment
  containing the whole data of the channel. Segment \<open>i\<close> holds the rows of the sorted
  frame that window \<open>i\<close> contains, in their order; the one segment for no windows is the
  sorted frame, which holds every reading of the file.
\<close>

theorem load_segments:
  assumes "path_for_house fs self k = Inr hp" and "meter k = Some m"
    and "read_csv fs (os_path_join hp (''channel_'' @ format_d m @ ''.dat'')) = Some rows"
    and "rows \<noteq> []"
    and "mset (quicksort lib rows) = mset rows"
  shows "(ps \<noteq> [] \<longrightarrow>
           (\<exists>segs. load lib fs self k (Some ps) = Inr segs \<and> length segs = length ps \<and>
              (\<forall>i < length ps.
                 df_rows (segs ! i) =
                   filter (\<lambda>row. contains (ps ! i) (fst row)) (channel_rows lib rows))))
       \<and> (\<exists>df. load lib fs self k None = Inr [df] \<and> df_rows df = channel_rows lib rows
              \<and> mset (df_rows df) = image_mset (reading lib) (mset rows))"
proof -
  have ne: "quicksort lib rows \<noteq> []"
    using assms(4,5) by (simp add: quicksort_empty)
  have "ps \<noteq> [] \<Longrightarrow>
      load lib fs self k (Some ps) = Inr (map (\<lambda>period. slice period (channel_df lib rows)) ps)"
    unfolding load_Inr [OF assms(1-3) ne] by (cases ps) simp_all
  moreover have "load lib fs self k None = Inr [channel_df lib rows]"
    unfolding load_Inr [OF assms(1-3) ne] by simp
  ultimately show ?thesis
    using mset_channel_rows [OF assms(5)] by (simp add: slice_def channel_df_def)
qed

theorem load_segments_witness:
  "load example_library example_fs example_store \<lparr>building = 1, meter = Some 3, utility = None\<rparr>
       (Some [TimeFrame 20000000000 40000000000, TimeFrame 0 20000000000])
     = Inr [\<lparr>df_rows = [(20000000000, 0), (30000000000, 3 / 2)],
             df_timeframe = Some \<lparr>tf_start = 20000000000, tf_end = 30000000000, include_end = True\<rparr>\<rparr>,
            \<lparr>df_rows = [(10000000000, 2)],
             df_timeframe = Some \<lparr>tf_start = 10000000000, tf_end = 20000000000, include_end = False\<rparr>\<rparr>]
   \<and> load example_library example_fs example_store
         \<lparr>building = 1, meter = Some 3, utility = None\<rparr> None
     = Inr [\<lparr>df_rows = [(10000000000, 2), (20000000000, 0), (30000000000, 3 / 2)],
             df_timeframe = Some \<lparr>tf_start = 10000000000, tf_end = 30000000000, include_end = True\<rparr>\<rparr>]"
proof -
  have n: "[(30, 3 / 2), (10, 2), (20::int, 0::real)] \<noteq> []"
    by simp
  note t = load_segments
    [where k = "\<lparr>building = 1, meter = Some 3, utility = None\<rparr>" and m = 3
       and ps = "[TimeFrame 20000000000 40000000000, TimeFrame 0 20000000000]",
     OF example_house_1 _ example_channel_3 n example_library_sorts(2)]
  show ?thesis
    using t
    by (simp add: example_load_3 channel_df_def example_channel_rows slice_def contains_def
        intersect_def TimeFrame_def)
qed

text \<open>The claim as first stated, for every valid key, fails on the channel file of
  meter 5 of house 1, which exists and is empty: \<^verbatim>\<open>df.index[0]\<close> raises an IndexError
  and no segment is yielded.\<close>

theorem load_segments_counterexample:
  "path_for_house example_fs example_store \<lparr>building = 1, meter = Some 5, utility = None\<rparr>
     = Inr ''/data/house_1''
   \<and> read_csv example_fs ''/data/house_1/channel_5.dat'' = Some []
   \<and> load example_library example_fs example_store
         \<lparr>building = 1, meter = Some 5, utility = None\<rparr> None = Inl IndexError"
proof -
  have "load example_library example_fs example_store
         \<lparr>building = 1, meter = Some 5, utility = None\<rparr> None = Inl IndexError"
    by (rule load_IndexError [OF example_house_1 _ example_channel_5])
      (simp_all add: example_library_def)
  then show ?thesis
    using example_house_1 [of "Some 5" None] by (simp add: example_fs_def)
qed

text \<open>
  Claim C9, as amended. For a key whose house directory does not exist under the root
  path of the store, \<^verbatim>\<open>load\<close> fails with an assertion error (the \<^verbatim>\<open>assert\<close> of
  \<^verbatim>\<open>_path_for_house\<close>); for a key whose house directory exists and whose channel file
  cannot be read, it fails with the I/O error of the file reader. Neither failure is an
  invalid-input error.
\<close>

theorem load_missing:
  "(\<not> isdir fs (os_path_join (path self) (''house_'' @ format_d (building k)))
      \<longrightarrow> load lib fs self k periods = Inl AssertionError)
   \<and> (path_for_house fs self k = Inr hp \<and> meter k = Some m
        \<and> read_csv fs (os_path_join hp (''channel_'' @ format_d m @ ''.dat'')) = None
      \<longrightarrow> load lib fs self k periods =
            Inl (IOError (os_path_join hp (''channel_'' @ format_d m @ ''.dat''))))"
  by (auto simp: load_def path_for_house_def Let_def split: if_splits)

theorem load_missing_witness:
  "\<not> isdir example_fs (os_path_join (path example_store) (''house_'' @ format_d 4))
   \<and> load example_library example_fs example_store
         \<lparr>building = 4, meter = Some 3, utility = None\<rparr> None
       = Inl AssertionError
   \<and> path_for_house example_fs example_store \<lparr>building = 1, meter = Some 4, utility = None\<rparr>
       = Inr ''/data/house_1''
   \<and> read_csv example_fs (os_path_join ''/data/house_1'' (''channel_'' @ format_d 4 @ ''.dat''))
       = None
   \<and> load example_library example_fs example_store
         \<lparr>building = 1, meter = Some 4, utility = None\<rparr> None
       = Inl (IOError ''/data/house_1/channel_4.dat'')"
  using load_missing
    [of example_fs example_store "\<lparr>building = 4, meter = Some 3, utility = None\<rparr>"
        example_library None "''/data/house_1''" 3]
    load_missing
    [of example_fs example_store "\<lparr>building = 1, meter = Some 4, utility = None\<rparr>"
        example_library None "''/data/house_1''" 4]
    example_house_4 example_house_1 [of "Some 4" None] example_channel_4
  by (simp add: os_path_join_def format_d_small digit_def)

text \<open>The claim as first stated fails: house 4 has no directory and channel 4 of house 1
  has no file, and neither failure of \<^verbatim>\<open>load\<close> is a ValueError.\<close>

theorem load_missing_counterexample:
  "load example_library example_fs example_store
       \<lparr>building = 4, meter = Some 3, utility = None\<rparr> None
       = Inl AssertionError
   \<and> load example_library example_fs example_store
       \<lparr>building = 1, meter = Some 4, utility = None\<rparr> None
       = Inl (IOError ''/data/house_1/channel_4.dat'')"
  by (simp add: load_def path_for_house_def Let_def example_fs_def example_store_def
      os_path_join_def format_d_small digit_def)

subsection \<open>The store of objects\<close>

lemma take_length_iff:
  "take (length h) h' = h \<longleftrightarrow> length h \<le> length h' \<and> (\<forall>i < length h. h' ! i = h ! i)"
  by (auto simp: list_eq_iff_nth_eq)

lemma count_instance_Inr:
  "\<forall>i \<in> set is. map_of labels i \<noteq> None \<Longrightarrow>
   count_instance labels l is inst =
     Inr (inst + int (length (filter (\<lambda>i. map_of labels i = Some l) is)))"
  by (induction "is" arbitrary: inst) auto

lemma count_instance_Inl:
  "i \<in> set is \<Longrightarrow> map_of labels i = None \<Longrightarrow> \<exists>j. count_instance labels l is inst = Inl (KeyError (IntKey j))"
  by (induction "is" arbitrary: inst) (auto split: option.splits)

lemma set_instances_frame:
  "set_instances labels l m as h = (r, h') \<Longrightarrow>
     length h' = length h \<and> (\<forall>a < length h. a \<notin> set as \<longrightarrow> h' ! a = h ! a)"
proof (induction as arbitrary: h)
  case Nil
  then show ?case by simp
next
  case (Cons a as)
  show ?case
  proof (cases "count_instance labels l [1 .. m - 1] 1")
    case (Inl e)
    with Cons.prems show ?thesis by simp
  next
    case (Inr inst)
    with Cons.prems
    have "set_instances labels l m as (h[a := (h ! a)\<lparr>a_instance := Some inst\<rparr>]) = (r, h')"
      by simp
    from Cons.IH [OF this] show ?thesis
      by auto
  qed
qed

lemma set_instances_Inr:
  assumes "count_instance labels l [1 .. m - 1] 1 = Inr inst"
  shows "\<exists>h'. set_instances labels l m as h = (None, h') \<and> length h' = length h \<and>
           (\<forall>a < length h. h' ! a = (if a \<in> set as then (h ! a)\<lparr>a_instance := Some inst\<rparr> else h ! a))"
proof (induction as arbitrary: h)
  case Nil
  then show ?case by simp
next
  case (Cons a as)
  let ?h1 = "h[a := (h ! a)\<lparr>a_instance := Some inst\<rparr>]"
  from Cons.IH [of ?h1] obtain h' where
    h': "set_instances labels l m as ?h1 = (None, h')" "length h' = length ?h1"
      "\<forall>b < length ?h1. h' ! b = (if b \<in> set as then (?h1 ! b)\<lparr>a_instance := Some inst\<rparr> else ?h1 ! b)"
    by blast
  have "set_instances labels l m (a # as) h = (None, h')"
    using assms h'(1) by simp
  moreover have "length h' = length h"
    using h'(2) by simp
  moreover have "\<forall>b < length h. h' ! b = (if b \<in> set (a # as) then (h ! b)\<lparr>a_instance := Some inst\<rparr> else h ! b)"
  proof (intro allI impI)
    fix b assume "b < length h"
    then show "h' ! b = (if b \<in> set (a # as) then (h ! b)\<lparr>a_instance := Some inst\<rparr> else h ! b)"
      using h'(3) by (cases "b = a") (simp_all add: nth_list_update)
  qed
  ultimately show ?case by blast
qed

lemma deepcopy_list_spec:
  assumes "deepcopy_list as memo h = (as', h')"
    and "n \<le> length h"
    and "\<forall>a \<in> set as. a < n"
    and "\<forall>(a, a') \<in> set memo. a < n \<and> n \<le> a' \<and> a' < length h \<and> h ! a' = h ! a"
  shows "take (length h) h' = h \<and> length as' = length as \<and>
         (\<forall>j < length as. n \<le> as' ! j \<and> as' ! j < length h' \<and> h' ! (as' ! j) = h ! (as ! j))"
  using assms
proof (induction as arbitrary: memo h as' h')
  case Nil
  then show ?case by simp
next
  case (Cons a as)
  show ?case
  proof (cases "map_of memo a")
    case (Some a')
    obtain as'' where rec: "deepcopy_list as memo h = (as'', h')" and as': "as' = a' # as''"
      using Cons.prems(1) Some by (auto split: prod.splits)
    have m: "a < n" "n \<le> a'" "a' < length h" "h ! a' = h ! a"
      using Cons.prems(4) map_of_SomeD [OF Some] by auto
    have ih: "take (length h) h' = h" "length as'' = length as"
      "\<forall>j < length as. n \<le> as'' ! j \<and> as'' ! j < length h' \<and> h' ! (as'' ! j) = h ! (as ! j)"
      using Cons.IH [OF rec Cons.prems(2) _ Cons.prems(4)] Cons.prems(3) by auto
    have fr: "length h \<le> length h'" "\<forall>i < length h. h' ! i = h ! i"
      using ih(1) take_length_iff [of h h'] by auto
    have "\<forall>j < length (a # as). n \<le> as' ! j \<and> as' ! j < length h' \<and> h' ! (as' ! j) = h ! ((a # as) ! j)"
    proof (intro allI impI)
      fix j assume "j < length (a # as)"
      then show "n \<le> as' ! j \<and> as' ! j < length h' \<and> h' ! (as' ! j) = h ! ((a # as) ! j)"
        using m fr ih(3) as' by (cases j) auto
    qed
    then show ?thesis
      using ih(1,2) as' by simp
  next
    case None
    let ?h1 = "h @ [h ! a]"
    let ?memo1 = "(a, length h) # memo"
    obtain as'' where rec: "deepcopy_list as ?memo1 ?h1 = (as'', h')" and as': "as' = length h # as''"
      using Cons.prems(1) None by (auto simp: Let_def split: prod.splits)
    have an: "a < n" using Cons.prems(3) by simp
    have p2: "n \<le> length ?h1" using Cons.prems(2) by simp
    have p3: "\<forall>a \<in> set as. a < n" using Cons.prems(3) by simp
    have p4: "\<forall>(b, b') \<in> set ?memo1. b < n \<and> n \<le> b' \<and> b' < length ?h1 \<and> ?h1 ! b' = ?h1 ! b"
      using Cons.prems(2,4) an by (auto simp: nth_append)
    have ih: "take (length ?h1) h' = ?h1" "length as'' = length as"
      "\<forall>j < length as. n \<le> as'' ! j \<and> as'' ! j < length h' \<and> h' ! (as'' ! j) = ?h1 ! (as ! j)"
      using Cons.IH [OF rec p2 p3 p4] by auto
    have fr1: "length ?h1 \<le> length h'" "\<forall>i < length ?h1. h' ! i = ?h1 ! i"
      using ih(1) take_length_iff [of ?h1 h'] by auto
    have fr: "take (length h) h' = h"
      unfolding take_length_iff using fr1 by (auto simp: nth_append)
    have "\<forall>j < length (a # as). n \<le> as' ! j \<and> as' ! j < length h' \<and> h' ! (as' ! j) = h ! ((a # as) ! j)"
    proof (intro allI impI)
      fix j assume j: "j < length (a # as)"
      show "n \<le> as' ! j \<and> as' ! j < length h' \<and> h' ! (as' ! j) = h ! ((a # as) ! j)"
      proof (cases j)
        case 0
        then show ?thesis
          using as' Cons.prems(2) fr1 by (auto simp: nth_append)
      next
        case (Suc i)
        then have "i < length as" using j by simp
        moreover from this have "as ! i < length h"
          using p3 Cons.prems(2) by (meson nth_mem order_less_le_trans)
        ultimately show ?thesis
          using Suc as' ih(3) by (auto simp: nth_append)
      qed
    qed
    then show ?thesis
      using fr ih(2) as' by simp
  qed
qed

subsection \<open>Metadata of a submeter\<close>

lemma table_in_heapD:
  "table_in_heap h \<Longrightarrow> map_of MAP_REDD_LABELS_TO_NILMTK l = Some e \<Longrightarrow> appliances e = Some as
     \<Longrightarrow> \<forall>a \<in> set as. a < length h"
  by (auto simp: table_in_heap_def list_all_iff dest!: map_of_SomeD)

lemma table_in_heap_mono: "table_in_heap h \<Longrightarrow> length h \<le> length h' \<Longrightarrow> table_in_heap h'"
  by (fastforce simp: table_in_heap_def list_all_iff split: option.splits)

lemma load_metadata_submeter:
  assumes "1 \<le> building k" and "building k \<le> 6" and "meter k = Some m"
    and "m \<noteq> 1" and "m \<noteq> 2"
    and "path_for_house fs self k = Inr hp" and "load_labels fs hp = Inr labels"
    and "map_of labels m = Some l" and "map_of MAP_REDD_LABELS_TO_NILMTK l = Some e"
  shows "load_metadata fs self h (Path k) =
     (case deepcopy e h of
        (e', h') \<Rightarrow>
          (case set_instances labels l m (case appliances e' of None \<Rightarrow> [] | Some as \<Rightarrow> as) h' of
             (Some err, h'') \<Rightarrow> (Inl err, h'')
           | (None, h'') \<Rightarrow>
               (Inr (MeterMetadata (submeter_metadata (building k) m e (appliances e'))), h'')))"
proof -
  obtain e' h' where dc: "deepcopy e h = (e', h')"
    by (cases "deepcopy e h")
  then have re: "room e' = room e" "category e' = category e"
    by (auto simp: deepcopy_def split: option.splits prod.splits)
  show ?thesis
    using assms dc re
    by (simp add: load_metadata_def Let_def update_metadata_def submeter_metadata_def
        split: option.splits prod.splits)
qed

lemma load_metadata_submeter_value:
  assumes "1 \<le> building k" and "building k \<le> 6" and "meter k = Some m"
    and "m \<noteq> 1" and "m \<noteq> 2"
    and "path_for_house fs self k = Inr hp" and "load_labels fs hp = Inr labels"
    and "map_of labels m = Some l" and "map_of MAP_REDD_LABELS_TO_NILMTK l = Some e"
    and "appliances e = Some as" and "\<forall>a \<in> set as. a < length h"
  shows "\<exists>r h'. load_metadata fs self h (Path k) = (r, h') \<and> take (length h) h' = h \<and>
           map_sum id (deref h') r =
             (case count_instance labels l [1 .. m - 1] 1 of
                Inl err \<Rightarrow>
                  if as = [] then Inr (MeterMetadata (submeter_metadata (building k) m e (Some [])))
                  else Inl err
              | Inr inst \<Rightarrow>
                  Inr (MeterMetadata (submeter_metadata (building k) m e
                         (Some (map (\<lambda>a. (h ! a)\<lparr>a_instance := Some inst\<rparr>) as)))))"
proof -
  obtain as' h1 where dl: "deepcopy_list as [] h = (as', h1)"
    by (cases "deepcopy_list as [] h")
  from deepcopy_list_spec [OF dl, of "length h"] assms(11)
  have sp: "take (length h) h1 = h" "length as' = length as"
    "\<forall>j < length as. length h \<le> as' ! j \<and> as' ! j < length h1 \<and> h1 ! (as' ! j) = h ! (as ! j)"
    by auto
  have dc: "deepcopy e h = (e\<lparr>appliances := Some as'\<rparr>, h1)"
    using dl assms(10) by (simp add: deepcopy_def)
  have fr1: "length h \<le> length h1" "\<forall>i < length h. h1 ! i = h ! i"
    using sp(1) take_length_iff [of h h1] by auto
  have fresh: "\<forall>a \<in> set as'. length h \<le> a \<and> a < length h1"
    using sp(2,3) by (auto simp: in_set_conv_nth)
  note lm = load_metadata_submeter [OF assms(1-9), of h, unfolded dc, simplified]
  show ?thesis
  proof (cases "count_instance labels l [1 .. m - 1] 1")
    case (Inl err)
    show ?thesis
    proof (cases as)
      case Nil
      then have "as' = []" using sp(2) by simp
      then show ?thesis
        using lm Inl Nil sp(1) by (simp add: deref_meter_def submeter_metadata_def)
    next
      case (Cons a as0)
      then obtain a' as0' where "as' = a' # as0'"
        using sp(2) by (cases as') auto
      then show ?thesis
        using lm Inl Cons sp(1) by simp
    qed
  next
    case (Inr inst)
    from set_instances_Inr [OF Inr, of as' h1] obtain h2 where
      h2: "set_instances labels l m as' h1 = (None, h2)" "length h2 = length h1"
        "\<forall>a < length h1. h2 ! a = (if a \<in> set as' then (h1 ! a)\<lparr>a_instance := Some inst\<rparr> else h1 ! a)"
      by blast
    have res: "load_metadata fs self h (Path k) =
        (Inr (MeterMetadata (submeter_metadata (building k) m e (Some as'))), h2)"
      using lm h2(1) by simp
    have fr: "take (length h) h2 = h"
      unfolding take_length_iff
    proof (intro conjI allI impI)
      show "length h \<le> length h2" using h2(2) fr1(1) by simp
    next
      fix i assume i: "i < length h"
      then have "i \<notin> set as'" using fresh by auto
      then show "h2 ! i = h ! i" using h2(3) fr1 i by auto
    qed
    have "map (\<lambda>a. h2 ! a) as' = map (\<lambda>a. (h ! a)\<lparr>a_instance := Some inst\<rparr>) as"
    proof (rule nth_equalityI)
      show "length (map (\<lambda>a. h2 ! a) as') = length (map (\<lambda>a. (h ! a)\<lparr>a_instance := Some inst\<rparr>) as)"
        using sp(2) by simp
    next
      fix j assume "j < length (map (\<lambda>a. h2 ! a) as')"
      then have j: "j < length as" "j < length as'" using sp(2) by auto
      then have "as' ! j \<in> set as'" "as' ! j < length h1" "h1 ! (as' ! j) = h ! (as ! j)"
        using sp(3) by auto
      then show "map (\<lambda>a. h2 ! a) as' ! j = map (\<lambda>a. (h ! a)\<lparr>a_instance := Some inst\<rparr>) as ! j"
        using j h2(3) by simp
    qed
    then show ?thesis
      using res fr Inr by (simp add: deref_meter_def submeter_metadata_def)
  qed
qed


lemma deref_no_appliances:
  "mm_appliances mm = None \<Longrightarrow> deref h (MeterMetadata mm) = deref g (MeterMetadata mm)"
  by (simp add: deref_meter_def)

lemma load_metadata_simple:
  assumes "\<not> (\<exists>key m hp labels l e as. k = Path key \<and> 1 \<le> building key \<and> building key \<le> 6
      \<and> meter key = Some m \<and> m \<noteq> 1 \<and> m \<noteq> 2 \<and> path_for_house fs self key = Inr hp
      \<and> load_labels fs hp = Inr labels \<and> map_of labels m = Some l
      \<and> map_of MAP_REDD_LABELS_TO_NILMTK l = Some e \<and> appliances e = Some as)"
  shows "\<exists>r0. (\<forall>h. load_metadata fs self h k = (r0, h))
           \<and> (\<forall>h g. map_sum id (deref h) r0 = map_sum id (deref g) r0)"
proof (cases k)
  case Root
  then show ?thesis by (simp add: load_metadata_def)
next
  case (Path key)
  show ?thesis
  proof (cases "1 \<le> building key \<and> building key \<le> 6")
    case False
    with Path show ?thesis by (auto simp: load_metadata_def)
  next
    case rng: True
    show ?thesis
    proof (cases "meter key")
      case None
      with Path rng show ?thesis by (simp add: load_metadata_def)
    next
      case (Some m)
      show ?thesis
      proof (cases "m = 1 \<or> m = 2")
        case True
        with Path rng Some show ?thesis
          by (auto simp: load_metadata_def deref_meter_def)
      next
        case m12: False
        show ?thesis
        proof (cases "path_for_house fs self key")
          case (Inl err)
          with Path rng Some m12 show ?thesis by (simp add: load_metadata_def)
        next
          case hp: (Inr hp)
          show ?thesis
          proof (cases "load_labels fs hp")
            case (Inl err)
            with Path rng Some m12 hp show ?thesis by (simp add: load_metadata_def)
          next
            case lb: (Inr labels)
            show ?thesis
            proof (cases "map_of labels m")
              case None
              with Path rng Some m12 hp lb show ?thesis by (simp add: load_metadata_def)
            next
              case l: (Some l)
              show ?thesis
              proof (cases "map_of MAP_REDD_LABELS_TO_NILMTK l")
                case None
                with Path rng Some m12 hp lb l show ?thesis by (simp add: load_metadata_def)
              next
                case e: (Some e)
                have ap: "appliances e = None"
                  using assms Path rng Some m12 hp lb l e by (cases "appliances e") auto
                have "\<forall>h. load_metadata fs self h k =
                    (Inr (MeterMetadata (submeter_metadata (building key) m e None)), h)"
                  using load_metadata_submeter [of key m fs self hp labels l e]
                    Path rng Some m12 hp lb l e ap
                  by (simp add: deepcopy_def)
                then show ?thesis
                  by (auto simp: deref_meter_def submeter_metadata_def)
              qed
            qed
          qed
        qed
      qed
    qed
  qed
qed

subsection \<open>The static table and the small data set, evaluated\<close>

lemma MAP_REDD_LABELS_TO_NILMTK_value:
  "MAP_REDD_LABELS_TO_NILMTK =
    [(''air_conditioning'', \<lparr>appliances = Some [0], room = None, category = None\<rparr>),
     (''bathroom_gfi'', \<lparr>appliances = None, room = Some \<lparr>room_name = ''bathroom''\<rparr>, category = Some ''misc''\<rparr>),
     (''dishwaser'', \<lparr>appliances = Some [1], room = None, category = None\<rparr>),
     (''disposal'', \<lparr>appliances = Some [2], room = None, category = None\<rparr>),
     (''electric_heat'', \<lparr>appliances = Some [3], room = None, category = None\<rparr>),
     (''electronics'', \<lparr>appliances = None, room = None, category = Some ''consumer electronics''\<rparr>),
     (''furance'', \<lparr>appliances = Some [4], room = None, category = None\<rparr>),
     (''kitchen_outlets'', \<lparr>appliances = None, room = Some \<lparr>room_name = ''kitchen''\<rparr>, category = Some ''sockets''\<rparr>),
     (''lighting'', \<lparr>appliances = None, room = None, category = Some ''lighting''\<rparr>),
     (''microwave'', \<lparr>appliances = Some [5], room = None, category = None\<rparr>),
     (''miscellaeneous'', \<lparr>appliances = None, room = None, category = Some ''misc''\<rparr>),
     (''outdoor_outlets'', \<lparr>appliances = None, room = Some \<lparr>room_name = ''outdoors''\<rparr>, category = Some ''sockets''\<rparr>),
     (''outlets_unknown'', \<lparr>appliances = None, room = None, category = Some ''sockets''\<rparr>),
     (''oven'', \<lparr>appliances = Some [6], room = None, category = None\<rparr>),
     (''refrigerator'', \<lparr>appliances = Some [7], room = None, category = None\<rparr>),
     (''smoke_alarms'', \<lparr>appliances = Some [8], room = None, category = None\<rparr>),
     (''stove'', \<lparr>appliances = Some [9], room = None, category = None\<rparr>),
     (''subpanel'', \<lparr>appliances = None, room = None, category = None\<rparr>),
     (''washer_dryer'', \<lparr>appliances = Some [10], room = None, category = None\<rparr>)]"
  by (simp add: MAP_REDD_LABELS_TO_NILMTK_def MAP_REDD_LABELS_TO_NILMTK_literal_def
      alloc_entry_def with_appliances_def without_appliances_def upt_rec)

lemma module_heap_value:
  "module_heap =
    [\<lparr>a_type = ''air conditioner'', a_multiple = None, a_instance = None\<rparr>,
     \<lparr>a_type = ''dish washer'', a_multiple = None, a_instance = None\<rparr>,
     \<lparr>a_type = ''waste disposal unit'', a_multiple = None, a_instance = None\<rparr>,
     \<lparr>a_type = ''electric space heater'', a_multiple = None, a_instance = None\<rparr>,
     \<lparr>a_type = ''electric boiler'', a_multiple = None, a_instance = None\<rparr>,
     \<lparr>a_type = ''microwave'', a_multiple = None, a_instance = None\<rparr>,
     \<lparr>a_type = ''electric oven'', a_multiple = None, a_instance = None\<rparr>,
     \<lparr>a_type = ''fridge'', a_multiple = None, a_instance = None\<rparr>,
     \<lparr>a_type = ''smoke alarm'', a_multiple = Some True, a_instance = None\<rparr>,
     \<lparr>a_type = ''electric stove'', a_multiple = None, a_instance = None\<rparr>,
     \<lparr>a_type = ''washer dryer'', a_multiple = None, a_instance = None\<rparr>]"
  by (simp add: module_heap_def MAP_REDD_LABELS_TO_NILMTK_literal_def
      alloc_entry_def with_appliances_def without_appliances_def)

lemma table_in_module_heap: "table_in_heap module_heap"
  by (simp add: table_in_heap_def MAP_REDD_LABELS_TO_NILMTK_value module_heap_value)

lemma MAP_smoke_alarms:
  "map_of MAP_REDD_LABELS_TO_NILMTK ''smoke_alarms'' =
     Some \<lparr>appliances = Some [8], room = None, category = None\<rparr>"
  by (simp add: MAP_REDD_LABELS_TO_NILMTK_value)

lemma MAP_microwave:
  "map_of MAP_REDD_LABELS_TO_NILMTK ''microwave'' =
     Some \<lparr>appliances = Some [5], room = None, category = None\<rparr>"
  by (simp add: MAP_REDD_LABELS_TO_NILMTK_value)

lemma MAP_sump_pump: "map_of MAP_REDD_LABELS_TO_NILMTK ''sump_pump'' = None"
  by (simp add: MAP_REDD_LABELS_TO_NILMTK_value)

lemma example_load_labels_1: "load_labels example_fs ''/data/house_1'' = Inr house_1_labels"
  unfolding load_labels_def Let_def example_labels_1 by (simp add: house_1_labels_def)

lemma example_load_labels_2: "load_labels example_fs ''/data/house_2'' = Inr house_2_labels"
  unfolding load_labels_def Let_def example_labels_2 by (simp add: house_2_labels_def)

lemma example_load_labels_3: "load_labels example_fs ''/data/house_3'' = Inr house_3_labels"
  unfolding load_labels_def Let_def example_labels_3 by (simp add: house_3_labels_def)

lemma card_upto: "card {i \<in> {a .. b}. P i} = length (filter P [a .. b])"
  by (subst distinct_length_filter) (auto intro: arg_cong [where f = card])

lemma upto_1_8: "[1 .. 8] = [1, 2, 3, 4, 5, 6, 7, (8::int)]"
  by (simp add: upto_rec1)

lemma upto_1_4: "[1 .. 4] = [1, 2, 3, (4::int)]"
  by (simp add: upto_rec1)

lemma upto_1_2: "[1 .. 2] = [1, (2::int)]"
  by (simp add: upto_rec1)

lemma house_1_range: "{1 .. 8} \<subseteq> fst ` set house_1_labels"
  unfolding set_upto [symmetric] upto_1_8 by (simp add: house_1_labels_def)

lemma example_meter_9:
  "load_metadata example_fs example_store (module_heap @ ext)
       (Path \<lparr>building = 1, meter = Some 9, utility = None\<rparr>) =
     (Inr (MeterMetadata
        (submeter_metadata 1 9 \<lparr>appliances = Some [8::nat], room = None, category = None\<rparr>
           (Some [11 + length ext]))),
      module_heap @ ext @ [\<lparr>a_type = ''smoke alarm'', a_multiple = Some True, a_instance = Some 2\<rparr>])"
proof -
  have l9: "map_of house_1_labels 9 = Some ''smoke_alarms''"
    by (simp add: house_1_labels_def)
  have ci: "count_instance house_1_labels ''smoke_alarms'' [1 .. 8] 1 = Inr 2"
    by (simp add: upto_1_8 house_1_labels_def)
  have len: "length module_heap = 11"
    by (simp add: module_heap_value)
  have c8: "module_heap ! 8 = \<lparr>a_type = ''smoke alarm'', a_multiple = Some True, a_instance = None\<rparr>"
    by (simp add: module_heap_value)
  show ?thesis
    using load_metadata_submeter
      [of "\<lparr>building = 1, meter = Some 9, utility = None\<rparr>" 9 example_fs example_store
          "''/data/house_1''" house_1_labels "''smoke_alarms''" _ "module_heap @ ext",
       OF _ _ _ _ _ example_house_1 example_load_labels_1 l9 MAP_smoke_alarms]
    by (simp add: deepcopy_def ci len c8 nth_append list_update_append)
qed

subsection \<open>Appliance instances\<close>

text \<open>
  Claim C1, as amended. For every building 1 to 6 and every meter number \<open>m \<ge> 3\<close> present
  in the label file of the house with a label whose entry in the static table lists
  appliances, and provided that the label file lists every channel from 1 to \<open>m - 1\<close>,
  \<^verbatim>\<open>load_metadata\<close> returns metadata in which each listed appliance has an instance number
  equal to 1 plus the number of channels \<open>i\<close> with \<open>1 \<le> i < m\<close> that carry the same label.
  Here \<open>labels\<close> is the dictionary read from the label file, \<open>as\<close> are the appliances of
  the table entry, and the appliances of the result are read in the store returned.
\<close>

theorem load_metadata_instance:
  assumes "1 \<le> building k" and "building k \<le> 6" and "meter k = Some m" and "3 \<le> m"
    and "path_for_house fs self k = Inr hp" and "load_labels fs hp = Inr labels"
    and "map_of labels m = Some l" and "map_of MAP_REDD_LABELS_TO_NILMTK l = Some e"
    and "appliances e = Some as"
    and "{1 .. m - 1} \<subseteq> fst ` set labels"
    and "table_in_heap h"
  shows "\<exists>mm h'. load_metadata fs self h (Path k) = (Inr (MeterMetadata mm), h')
           \<and> mm_appliances (deref_meter h' mm) =
               Some (map (\<lambda>a. (h ! a)
                  \<lparr>a_instance := Some (1 + int (card {i \<in> {1 .. m - 1}. map_of labels i = Some l}))\<rparr>) as)"
proof -
  have in_h: "\<forall>a \<in> set as. a < length h"
    using table_in_heapD [OF assms(11,8,9)] .
  have m12: "m \<noteq> 1" "m \<noteq> 2" using assms(4) by auto
  have "\<forall>i \<in> set [1 .. m - 1]. map_of labels i \<noteq> None"
    using assms(10) by (auto simp: map_of_eq_None_iff)
  from count_instance_Inr [OF this, of l 1]
  have ci: "count_instance labels l [1 .. m - 1] 1 =
      Inr (1 + int (length (filter (\<lambda>i. map_of labels i = Some l) [1 .. m - 1])))" .
  have "length (filter (\<lambda>i. map_of labels i = Some l) [1 .. m - 1])
      = card {i \<in> {1 .. m - 1}. map_of labels i = Some l}"
    by (subst distinct_length_filter) (auto intro: arg_cong [where f = card])
  with ci have ci': "count_instance labels l [1 .. m - 1] 1 =
      Inr (1 + int (card {i \<in> {1 .. m - 1}. map_of labels i = Some l}))"
    by simp
  from load_metadata_submeter_value [OF assms(1-3) m12 assms(5-9) in_h]
  obtain r h' where
    r: "load_metadata fs self h (Path k) = (r, h')"
      "map_sum id (deref h') r =
         Inr (MeterMetadata (submeter_metadata (building k) m e
               (Some (map (\<lambda>a. (h ! a)
                  \<lparr>a_instance := Some (1 + int (card {i \<in> {1 .. m - 1}. map_of labels i = Some l}))\<rparr>) as))))"
    unfolding ci' by auto
  from r(2) obtain md where md: "r = Inr md" by (cases r) auto
  with r(2) obtain mm where mm: "md = MeterMetadata mm" by (cases md) auto
  show ?thesis
    using r md mm by (auto simp: submeter_metadata_def)
qed

text \<open>Two channels sharing the label \<^verbatim>\<open>smoke_alarms\<close> at positions 5 and 9 of house 1
  get the instances 1 and 2.\<close>

theorem load_metadata_instance_witness:
  "(\<exists>mm h'. load_metadata example_fs example_store module_heap
                (Path \<lparr>building = 1, meter = Some 5, utility = None\<rparr>) = (Inr (MeterMetadata mm), h')
        \<and> mm_appliances (deref_meter h' mm) =
            Some [\<lparr>a_type = ''smoke alarm'', a_multiple = Some True, a_instance = Some 1\<rparr>])
   \<and> (\<exists>mm h'. load_metadata example_fs example_store module_heap
                (Path \<lparr>building = 1, meter = Some 9, utility = None\<rparr>) = (Inr (MeterMetadata mm), h')
        \<and> mm_appliances (deref_meter h' mm) =
            Some [\<lparr>a_type = ''smoke alarm'', a_multiple = Some True, a_instance = Some 2\<rparr>])"
proof -
  have r5: "{1 .. 5 - 1} \<subseteq> fst ` set house_1_labels"
    using house_1_range by auto
  have r9: "{1 .. 9 - 1} \<subseteq> fst ` set house_1_labels"
    using house_1_range by auto
  have c5: "card {i \<in> {1 .. 5 - 1}. map_of house_1_labels i = Some ''smoke_alarms''} = 0"
    unfolding card_upto by (simp add: upto_1_4 house_1_labels_def)
  have c9: "card {i \<in> {1 .. 9 - 1}. map_of house_1_labels i = Some ''smoke_alarms''} = 1"
    unfolding card_upto by (simp add: upto_1_8 house_1_labels_def)
  have l5: "map_of house_1_labels 5 = Some ''smoke_alarms''"
    by (simp add: house_1_labels_def)
  have l9: "map_of house_1_labels 9 = Some ''smoke_alarms''"
    by (simp add: house_1_labels_def)
  have a: "appliances \<lparr>appliances = Some [8::nat], room = None, category = None\<rparr> = Some [8]"
    by simp
  note t5 = load_metadata_instance
    [of "\<lparr>building = 1, meter = Some 5, utility = None\<rparr>" 5 example_fs example_store
        "''/data/house_1''" house_1_labels "''smoke_alarms''" _ "[8]" module_heap,
     OF _ _ _ _ example_house_1 example_load_labels_1 l5 MAP_smoke_alarms a r5 table_in_module_heap]
  note t9 = load_metadata_instance
    [of "\<lparr>building = 1, meter = Some 9, utility = None\<rparr>" 9 example_fs example_store
        "''/data/house_1''" house_1_labels "''smoke_alarms''" _ "[8]" module_heap,
     OF _ _ _ _ example_house_1 example_load_labels_1 l9 MAP_smoke_alarms a r9 table_in_module_heap]
  show ?thesis
    using t5 t9 unfolding c5 c9 by (simp add: module_heap_value)
qed

text \<open>The claim as first stated fails on the label file of house 2. It lacks channel 4,
  so that the query for meter 5 ends in the KeyError of \<^verbatim>\<open>labels[4]\<close>; and its channel 0
  carries the label of channel 3 without being counted, since the loop starts at 1: the
  instance of meter 3 is 1, and 1 plus the number of lower channels with its label is 2.\<close>

theorem load_metadata_instance_counterexample:
  "load_metadata example_fs example_store module_heap
       (Path \<lparr>building = 2, meter = Some 5, utility = None\<rparr>) =
     (Inl (KeyError (IntKey 4)),
      module_heap @ [\<lparr>a_type = ''microwave'', a_multiple = None, a_instance = None\<rparr>])
   \<and> load_metadata example_fs example_store module_heap
       (Path \<lparr>building = 2, meter = Some 3, utility = None\<rparr>) =
     (Inr (MeterMetadata
        (submeter_metadata 2 3 \<lparr>appliances = Some [5::nat], room = None, category = None\<rparr> (Some [11]))),
      module_heap @ [\<lparr>a_type = ''microwave'', a_multiple = None, a_instance = Some 1\<rparr>])
   \<and> 1 + int (length (filter (\<lambda>(i, l). i < 3 \<and> l = ''microwave'') house_2_labels)) = 2"
proof -
  have l5: "map_of house_2_labels 5 = Some ''microwave''"
    by (simp add: house_2_labels_def)
  have l3: "map_of house_2_labels 3 = Some ''microwave''"
    by (simp add: house_2_labels_def)
  have c5: "count_instance house_2_labels ''microwave'' [1 .. 4] 1 = Inl (KeyError (IntKey 4))"
    by (simp add: upto_1_4 house_2_labels_def)
  have c3: "count_instance house_2_labels ''microwave'' [1 .. 2] 1 = Inr 1"
    by (simp add: upto_1_2 house_2_labels_def)
  have len: "length module_heap = 11"
    by (simp add: module_heap_value)
  have c: "module_heap ! 5 = \<lparr>a_type = ''microwave'', a_multiple = None, a_instance = None\<rparr>"
    by (simp add: module_heap_value)
  have "load_metadata example_fs example_store module_heap
       (Path \<lparr>building = 2, meter = Some 5, utility = None\<rparr>) =
     (Inl (KeyError (IntKey 4)),
      module_heap @ [\<lparr>a_type = ''microwave'', a_multiple = None, a_instance = None\<rparr>])"
    using load_metadata_submeter
      [of "\<lparr>building = 2, meter = Some 5, utility = None\<rparr>" 5 example_fs example_store
          "''/data/house_2''" house_2_labels "''microwave''" _ module_heap,
       OF _ _ _ _ _ example_house_2 example_load_labels_2 l5 MAP_microwave]
    by (simp add: deepcopy_def c5 len c nth_append list_update_append)
  moreover have "load_metadata example_fs example_store module_heap
       (Path \<lparr>building = 2, meter = Some 3, utility = None\<rparr>) =
     (Inr (MeterMetadata
        (submeter_metadata 2 3 \<lparr>appliances = Some [5::nat], room = None, category = None\<rparr> (Some [11]))),
      module_heap @ [\<lparr>a_type = ''microwave'', a_multiple = None, a_instance = Some 1\<rparr>])"
    using load_metadata_submeter
      [of "\<lparr>building = 2, meter = Some 3, utility = None\<rparr>" 3 example_fs example_store
          "''/data/house_2''" house_2_labels "''microwave''" _ module_heap,
       OF _ _ _ _ _ example_house_2 example_load_labels_2 l3 MAP_microwave]
    by (simp add: deepcopy_def c3 len c nth_append list_update_append)
  moreover have "1 + int (length (filter (\<lambda>(i, l). i < 3 \<and> l = ''microwave'') house_2_labels)) = 2"
    by (simp add: house_2_labels_def)
  ultimately show ?thesis by blast
qed

subsection \<open>Unknown meters and unknown labels\<close>

text \<open>What \<^verbatim>\<open>load_metadata\<close> does for a meter number \<open>m \<ge> 3\<close> when the house directory and
  the label file exist: for a meter that the label file lacks, and for a meter whose label
  the static table lacks.\<close>

lemma load_metadata_lookups:
  assumes "meter k = Some m" and "3 \<le> m"
    and "path_for_house fs self k = Inr hp" and "load_labels fs hp = Inr labels"
  shows "(map_of labels m = None \<longrightarrow>
            load_metadata fs self h (Path k) =
              (Inl (ValueError
                 (if 1 \<le> building k \<and> building k \<le> 6
                  then format_d m @ '' is not a recognised meter instance for building ''
                         @ format_d (building k) @ ''.''
                  else ''Building '' @ format_d (building k) @ '' is not a valid building instance.'')), h))
       \<and> (1 \<le> building k \<and> building k \<le> 6 \<and> map_of labels m = Some l
            \<and> map_of MAP_REDD_LABELS_TO_NILMTK l = None \<longrightarrow>
            load_metadata fs self h (Path k) = (Inl (KeyError (StrKey l)), h))"
  using assms by (auto simp: load_metadata_def)

text \<open>
  Claim C4. Whenever \<^verbatim>\<open>load_metadata\<close> is queried for a meter \<open>m \<ge> 3\<close> that is absent from
  the label file of the house, or present with a label that has no entry in the static
  table, the call fails, and the failure is an invalid-input error (ValueError) with a
  descriptive message. The code does this for the absent meter, where lines 222 to 226
  turn the KeyError of \<^verbatim>\<open>labels[key_obj.meter]\<close> into a ValueError, and misses it for the
  unknown label, where the lookup of line 227 is unguarded and its KeyError escapes. The
  theorem runs the code on both: meter 12 of house 1, which the label file lacks, and
  meter 3 of house 3, whose label \<^verbatim>\<open>sump_pump\<close> the table lacks.
\<close>

theorem load_metadata_unknown_label:
  "map_of house_1_labels 12 = None
   \<and> load_metadata example_fs example_store module_heap
       (Path \<lparr>building = 1, meter = Some 12, utility = None\<rparr>) =
     (Inl (ValueError ''12 is not a recognised meter instance for building 1.''), module_heap)
   \<and> map_of house_3_labels 3 = Some ''sump_pump''
   \<and> map_of MAP_REDD_LABELS_TO_NILMTK ''sump_pump'' = None
   \<and> load_metadata example_fs example_store module_heap
       (Path \<lparr>building = 3, meter = Some 3, utility = None\<rparr>) =
     (Inl (KeyError (StrKey ''sump_pump'')), module_heap)"
proof -
  have l12: "map_of house_1_labels 12 = None"
    by (simp add: house_1_labels_def)
  have l3: "map_of house_3_labels 3 = Some ''sump_pump''"
    by (simp add: house_3_labels_def)
  have f12: "format_d 12 = ''12''"
    by (simp add: format_d_def str_nat.simps digit_def)
  note a = load_metadata_lookups
    [of "\<lparr>building = 1, meter = Some 12, utility = None\<rparr>" 12 example_fs example_store
        "''/data/house_1''" house_1_labels module_heap "''x''",
     OF _ _ example_house_1 example_load_labels_1]
  note b = load_metadata_lookups
    [of "\<lparr>building = 3, meter = Some 3, utility = None\<rparr>" 3 example_fs example_store
        "''/data/house_3''" house_3_labels module_heap "''sump_pump''",
     OF _ _ example_house_3 example_load_labels_3]
  show ?thesis
    using a b l12 l3 MAP_sump_pump by (simp add: f12 format_d_small digit_def)
qed

subsection \<open>The static table is never written\<close>

text \<open>
  Claim C10. No call to \<^verbatim>\<open>load_metadata\<close> mutates the static label-mapping table: the
  instance numbers are written into a deep copy of the table entry, so that for every
  fixed key and state of the disk two successive calls return equal metadata. In a store
  \<open>h\<close> that holds the appliance dictionaries of the table, a call leaves every object of
  \<open>h\<close> as it was (the store returned is \<open>h\<close> followed by new objects), the same holds for
  the next call, and the two results have the same value, each read in the store its call
  returns; an error is the same error.
\<close>

theorem load_metadata_repeat:
  assumes "table_in_heap h"
    and "load_metadata fs self h k = (r1, h1)"
    and "load_metadata fs self h1 k = (r2, h2)"
  shows "take (length h) h1 = h \<and> take (length h1) h2 = h1
       \<and> map_sum id (deref h1) r1 = map_sum id (deref h2) r2"
proof (cases "\<exists>key m hp labels l e as. k = Path key \<and> 1 \<le> building key \<and> building key \<le> 6
      \<and> meter key = Some m \<and> m \<noteq> 1 \<and> m \<noteq> 2 \<and> path_for_house fs self key = Inr hp
      \<and> load_labels fs hp = Inr labels \<and> map_of labels m = Some l
      \<and> map_of MAP_REDD_LABELS_TO_NILMTK l = Some e \<and> appliances e = Some as")
  case False
  from load_metadata_simple [OF False] obtain r0 where
    r0: "\<forall>h. load_metadata fs self h k = (r0, h)"
      "\<forall>h g. map_sum id (deref h) r0 = map_sum id (deref g) r0"
    by blast
  then have "r1 = r0" "h1 = h" "r2 = r0" "h2 = h"
    using assms(2,3) by auto
  then show ?thesis
    using r0(2) by simp
next
  case True
  then obtain key m hp labels l e as where c:
    "k = Path key" "1 \<le> building key" "building key \<le> 6" "meter key = Some m" "m \<noteq> 1" "m \<noteq> 2"
    "path_for_house fs self key = Inr hp" "load_labels fs hp = Inr labels" "map_of labels m = Some l"
    "map_of MAP_REDD_LABELS_TO_NILMTK l = Some e" "appliances e = Some as"
    by blast
  have in_h: "\<forall>a \<in> set as. a < length h"
    using table_in_heapD [OF assms(1) c(10,11)] .
  from load_metadata_submeter_value [OF c(2-11) in_h] assms(2) c(1)
  have v1: "take (length h) h1 = h"
    "map_sum id (deref h1) r1 =
       (case count_instance labels l [1 .. m - 1] 1 of
          Inl err \<Rightarrow>
            if as = [] then Inr (MeterMetadata (submeter_metadata (building key) m e (Some [])))
            else Inl err
        | Inr inst \<Rightarrow>
            Inr (MeterMetadata (submeter_metadata (building key) m e
                   (Some (map (\<lambda>a. (h ! a)\<lparr>a_instance := Some inst\<rparr>) as)))))"
    by auto
  have fr1: "length h \<le> length h1" "\<forall>i < length h. h1 ! i = h ! i"
    using v1(1) take_length_iff [of h h1] by auto
  have in_h1: "\<forall>a \<in> set as. a < length h1"
    using in_h fr1(1) by auto
  from load_metadata_submeter_value [OF c(2-11) in_h1] assms(3) c(1)
  have v2: "take (length h1) h2 = h1"
    "map_sum id (deref h2) r2 =
       (case count_instance labels l [1 .. m - 1] 1 of
          Inl err \<Rightarrow>
            if as = [] then Inr (MeterMetadata (submeter_metadata (building key) m e (Some [])))
            else Inl err
        | Inr inst \<Rightarrow>
            Inr (MeterMetadata (submeter_metadata (building key) m e
                   (Some (map (\<lambda>a. (h1 ! a)\<lparr>a_instance := Some inst\<rparr>) as)))))"
    by auto
  have eq: "\<And>inst. map (\<lambda>a. (h1 ! a)\<lparr>a_instance := Some inst\<rparr>) as
      = map (\<lambda>a. (h ! a)\<lparr>a_instance := Some inst\<rparr>) as"
    using in_h fr1(2) by simp
  show ?thesis
    unfolding v1(2) v2(2) eq using v1(1) v2(1) by simp
qed

theorem load_metadata_repeat_witness:
  "table_in_heap module_heap
   \<and> load_metadata example_fs example_store module_heap
         (Path \<lparr>building = 1, meter = Some 9, utility = None\<rparr>) =
       (Inr (MeterMetadata
          (submeter_metadata 1 9 \<lparr>appliances = Some [8::nat], room = None, category = None\<rparr> (Some [11]))),
        module_heap @ [\<lparr>a_type = ''smoke alarm'', a_multiple = Some True, a_instance = Some 2\<rparr>])
   \<and> load_metadata example_fs example_store
         (module_heap @ [\<lparr>a_type = ''smoke alarm'', a_multiple = Some True, a_instance = Some 2\<rparr>])
         (Path \<lparr>building = 1, meter = Some 9, utility = None\<rparr>) =
       (Inr (MeterMetadata
          (submeter_metadata 1 9 \<lparr>appliances = Some [8::nat], room = None, category = None\<rparr> (Some [12]))),
        module_heap @ [\<lparr>a_type = ''smoke alarm'', a_multiple = Some True, a_instance = Some 2\<rparr>,
                       \<lparr>a_type = ''smoke alarm'', a_multiple = Some True, a_instance = Some 2\<rparr>])
   \<and> take (length module_heap)
        (module_heap @ [\<lparr>a_type = ''smoke alarm'', a_multiple = Some True, a_instance = Some 2\<rparr>])
       = module_heap
   \<and> deref (module_heap @ [\<lparr>a_type = ''smoke alarm'', a_multiple = Some True, a_instance = Some 2\<rparr>])
        (MeterMetadata
          (submeter_metadata 1 9 \<lparr>appliances = Some [8::nat], room = None, category = None\<rparr> (Some [11])))
     = deref (module_heap @ [\<lparr>a_type = ''smoke alarm'', a_multiple = Some True, a_instance = Some 2\<rparr>,
                              \<lparr>a_type = ''smoke alarm'', a_multiple = Some True, a_instance = Some 2\<rparr>])
        (MeterMetadata
          (submeter_metadata 1 9 \<lparr>appliances = Some [8::nat], room = None, category = None\<rparr> (Some [12])))"
proof -
  let ?sa = "\<lparr>a_type = ''smoke alarm'', a_multiple = Some True, a_instance = Some 2\<rparr>"
  have e1: "load_metadata example_fs example_store module_heap
         (Path \<lparr>building = 1, meter = Some 9, utility = None\<rparr>) =
       (Inr (MeterMetadata
          (submeter_metadata 1 9 \<lparr>appliances = Some [8::nat], room = None, category = None\<rparr> (Some [11]))),
        module_heap @ [?sa])"
    using example_meter_9 [of "[]"] by simp
  have e2: "load_metadata example_fs example_store (module_heap @ [?sa])
         (Path \<lparr>building = 1, meter = Some 9, utility = None\<rparr>) =
       (Inr (MeterMetadata
          (submeter_metadata 1 9 \<lparr>appliances = Some [8::nat], room = None, category = None\<rparr> (Some [12]))),
        module_heap @ [?sa, ?sa])"
    using example_meter_9 [of "[?sa]"] by simp
  from load_metadata_repeat [OF table_in_module_heap e1 e2] e1 e2 table_in_module_heap
  show ?thesis by simp
qed

end
